theory Spec2Isabelle
  imports Complex_Main "HOL-Library.Multiset" "HOL-Library.AList"
begin

section \<open>Data model (types of the application)\<close>

text \<open>
  The string-literal union types of the TypeScript sources are datatypes. Where two
  unions share a literal (\<open>'low'\<close>, \<open>'medium'\<close>, \<open>'high'\<close> are both a severity and a
  priority) the priority's constructors carry the prefix \<open>P_\<close>; the grades carry the
  prefix \<open>Grade_\<close>.
\<close>

datatype RiskCategory =
  missing_clause | unfavorable_terms | compliance_issue | liability_exposure
  | termination_risk | payment_risk | legal_ambiguity

datatype RiskSeverity = low | medium | high | critical

datatype Importance = required | recommended | optional

datatype BlockerType =
  missing_signature | pending_approval | legal_review | negotiation_required
  | compliance_check | missing_document

datatype DocumentType = contract | nda | proposal | agreement | invoice | sow | msa | unknown

datatype RiskGrade = Grade_A | Grade_B | Grade_C | Grade_D | Grade_F

datatype Trend = improving | stable | worsening

datatype Priority = P_urgent | P_high | P_medium | P_low

datatype ActionStatus = pending | in_progress | completed

text \<open>
  Interfaces are records. Field names that several interfaces share (\<open>id\<close>, \<open>title\<close>,
  \<open>description\<close>, \<open>type\<close>) or that are reserved words here (\<open>term\<close>) carry the
  interface as a prefix.
\<close>

record DocumentRisk =
  risk_id :: string
  category :: RiskCategory
  severity :: RiskSeverity
  risk_title :: string
  risk_description :: string
  recommendation :: string
  relatedClauses :: "string list option"

record MissingTerm =
  term_name :: string
  importance :: Importance
  term_description :: string
  impact :: string

record DealBlocker =
  blocker_id :: string
  blocker_type :: BlockerType
  blocker_title :: string
  blocker_description :: string
  requiredAction :: string
  assignedTo :: "string option"
  dueDate :: "string option"

text \<open>
  The breakdown is used twice: with fractional running sums while the score is
  accumulated, and with the rounded, capped integers in the returned score.
\<close>

record 'n Breakdown =
  missingClauses :: 'n
  unfavorableTerms :: 'n
  complianceIssues :: 'n
  liabilityExposure :: 'n

record RiskScore =
  overall :: int
  breakdown :: "int Breakdown"
  grade :: RiskGrade
  trend :: "Trend option"

section \<open>The scoring engine\<close>

text \<open>
  JavaScript numbers are IEEE doubles. Every quantity of \<open>calculateRiskScore\<close> is a sum
  of products of an integer weight with one of 0.25, 0.5, 0.75, 1.0, of the integer
  penalties 10, 5, 2, and of \<open>5 * blockers.length\<close>: a multiple of 1/4 (lemma
  \<open>running_total_quarters\<close> below) that stays far below \<open>2^53\<close> for every array
  JavaScript can hold, so double arithmetic is exact on it and the rationals model it.
  \<open>Math.round\<close> rounds to the nearest integer, a half towards plus infinity.
\<close>

definition Math_round :: "rat \<Rightarrow> int" where
  "Math_round x = \<lfloor>x + 1 / 2\<rfloor>"

fun RISK_WEIGHTS :: "RiskCategory \<Rightarrow> rat" where
  "RISK_WEIGHTS missing_clause = 15"
| "RISK_WEIGHTS unfavorable_terms = 20"
| "RISK_WEIGHTS compliance_issue = 25"
| "RISK_WEIGHTS liability_exposure = 30"
| "RISK_WEIGHTS termination_risk = 15"
| "RISK_WEIGHTS payment_risk = 20"
| "RISK_WEIGHTS legal_ambiguity = 10"

fun SEVERITY_MULTIPLIERS :: "RiskSeverity \<Rightarrow> rat" where
  "SEVERITY_MULTIPLIERS low = 1 / 4"
| "SEVERITY_MULTIPLIERS medium = 1 / 2"
| "SEVERITY_MULTIPLIERS high = 3 / 4"
| "SEVERITY_MULTIPLIERS critical = 1"

text \<open>\<open>RISK_WEIGHTS[risk.category] || 10\<close>: a falsy (zero) weight is replaced by 10.\<close>

definition riskScore_of :: "DocumentRisk \<Rightarrow> rat" where
  "riskScore_of risk =
     (let weight = (if RISK_WEIGHTS (category risk) = 0 then 10 else RISK_WEIGHTS (category risk));
          multiplier = SEVERITY_MULTIPLIERS (severity risk)
      in weight * multiplier)"

text \<open>One iteration of the loop over the risks, on the pair (totalScore, breakdown).\<close>

definition risk_step :: "DocumentRisk \<Rightarrow> rat \<times> rat Breakdown \<Rightarrow> rat \<times> rat Breakdown" where
  "risk_step risk st =
     (let totalScore = fst st; bd = snd st; riskScore = riskScore_of risk
      in (totalScore + riskScore,
          (case category risk of
             missing_clause \<Rightarrow> bd\<lparr>missingClauses := missingClauses bd + riskScore\<rparr>
           | unfavorable_terms \<Rightarrow> bd\<lparr>unfavorableTerms := unfavorableTerms bd + riskScore\<rparr>
           | termination_risk \<Rightarrow> bd\<lparr>unfavorableTerms := unfavorableTerms bd + riskScore\<rparr>
           | payment_risk \<Rightarrow> bd\<lparr>unfavorableTerms := unfavorableTerms bd + riskScore\<rparr>
           | compliance_issue \<Rightarrow> bd\<lparr>complianceIssues := complianceIssues bd + riskScore\<rparr>
           | legal_ambiguity \<Rightarrow> bd\<lparr>complianceIssues := complianceIssues bd + riskScore\<rparr>
           | liability_exposure \<Rightarrow> bd\<lparr>liabilityExposure := liabilityExposure bd + riskScore\<rparr>)))"

definition penalty_of :: "MissingTerm \<Rightarrow> rat" where
  "penalty_of t =
     (if importance t = required then 10 else if importance t = recommended then 5 else 2)"

text \<open>One iteration of the loop over the missing terms.\<close>

definition term_step :: "MissingTerm \<Rightarrow> rat \<times> rat Breakdown \<Rightarrow> rat \<times> rat Breakdown" where
  "term_step t st =
     (let totalScore = fst st; bd = snd st; penalty = penalty_of t
      in (totalScore + penalty, bd\<lparr>missingClauses := missingClauses bd + penalty\<rparr>))"

fun calculateGrade :: "int \<Rightarrow> RiskGrade" where
  "calculateGrade score =
     (if score \<le> 20 then Grade_A
      else if score \<le> 40 then Grade_B
      else if score \<le> 60 then Grade_C
      else if score \<le> 80 then Grade_D
      else Grade_F)"

definition initial_breakdown :: "rat Breakdown" where
  "initial_breakdown =
     \<lparr>missingClauses = 0, unfavorableTerms = 0, complianceIssues = 0, liabilityExposure = 0\<rparr>"

text \<open>The state after both loops and the blocker penalty: (totalScore, breakdown).\<close>

definition running_totals ::
  "DocumentRisk list \<Rightarrow> MissingTerm list \<Rightarrow> DealBlocker list \<Rightarrow> rat \<times> rat Breakdown" where
  "running_totals risks missingTerms blockers =
     (let st = fold risk_step risks (0, initial_breakdown);
          st = fold term_step missingTerms st
      in (fst st + of_nat (length blockers) * 5, snd st))"

definition calculateRiskScore ::
  "DocumentRisk list \<Rightarrow> MissingTerm list \<Rightarrow> DealBlocker list \<Rightarrow> RiskScore" where
  "calculateRiskScore risks missingTerms blockers =
     (let st = running_totals risks missingTerms blockers;
          totalScore = fst st; bd = snd st;
          normalizedScore = min 100 (Math_round totalScore)
      in \<lparr>overall = normalizedScore,
          breakdown =
            \<lparr>missingClauses = min 25 (Math_round (missingClauses bd)),
             unfavorableTerms = min 25 (Math_round (unfavorableTerms bd)),
             complianceIssues = min 25 (Math_round (complianceIssues bd)),
             liabilityExposure = min 25 (Math_round (liabilityExposure bd))\<rparr>,
          grade = calculateGrade normalizedScore,
          trend = None\<rparr>)"

section \<open>Strings\<close>

text \<open>
  Texts and file names are \<open>string\<close>s: lists of 8-bit characters, read as the
  ASCII range of JavaScript's strings. \<open>toLowerCase\<close> maps \<open>A\<close>..\<open>Z\<close> to \<open>a\<close>..\<open>z\<close>
  and leaves every other character as it is; \<open>str_includes s kw\<close> is
  \<open>s.includes(kw)\<close>: \<open>kw\<close> occurs in \<open>s\<close> as a contiguous substring (lemma
  \<open>str_includes_iff\<close>). Every keyword of the sources is ASCII.
\<close>

definition toLowerCase_char :: "char \<Rightarrow> char" where
  "toLowerCase_char c =
     (case map_of (zip ''ABCDEFGHIJKLMNOPQRSTUVWXYZ'' ''abcdefghijklmnopqrstuvwxyz'') c of
        Some l \<Rightarrow> l
      | None \<Rightarrow> c)"

definition toLowerCase :: "string \<Rightarrow> string" where
  "toLowerCase s = map toLowerCase_char s"

fun startsWith :: "string \<Rightarrow> string \<Rightarrow> bool" where
  "startsWith s [] = True"
| "startsWith [] (k # ks) = False"
| "startsWith (c # cs) (k # ks) = (c = k \<and> startsWith cs ks)"

fun str_includes :: "string \<Rightarrow> string \<Rightarrow> bool" where
  "str_includes [] kw = (kw = [])"
| "str_includes (c # cs) kw = (startsWith (c # cs) kw \<or> str_includes cs kw)"

section \<open>The document classifier\<close>

text \<open>The table \<open>patterns\<close> of \<open>detectDocumentType\<close>, in its declared order.\<close>

definition content_patterns :: "(DocumentType \<times> string list) list" where
  "content_patterns =
     [(nda, [''non-disclosure'', ''confidential information'', ''proprietary'']),
      (proposal, [''proposal'', ''proposed solution'', ''pricing'', ''quote'']),
      (contract, [''agreement'', ''terms and conditions'', ''hereby agree'']),
      (invoice, [''invoice'', ''bill to'', ''payment due'', ''amount due'']),
      (sow, [''statement of work'', ''deliverables'', ''scope of work'']),
      (msa, [''master service agreement'', ''master agreement''])]"

text \<open>
  The loop over the table: the first entry with at least two of its keywords in the
  lower-cased text returns its type; \<open>unknown\<close> when the loop falls through.
\<close>

fun scan_patterns :: "(DocumentType \<times> string list) list \<Rightarrow> string \<Rightarrow> DocumentType" where
  "scan_patterns [] lowerText = unknown"
| "scan_patterns (pattern # patterns) lowerText =
     (let matchCount = length (filter (\<lambda>kw. str_includes lowerText kw) (snd pattern))
      in if matchCount \<ge> 2 then fst pattern else scan_patterns patterns lowerText)"

definition detectDocumentType :: "string \<Rightarrow> string \<Rightarrow> DocumentType" where
  "detectDocumentType text filename =
     (let lowerText = toLowerCase text;
          lowerFilename = toLowerCase filename
      in if str_includes lowerFilename ''nda'' \<or> str_includes lowerFilename ''non-disclosure''
         then nda
         else if str_includes lowerFilename ''proposal'' then proposal
         else if str_includes lowerFilename ''contract'' then contract
         else if str_includes lowerFilename ''agreement'' then agreement
         else if str_includes lowerFilename ''invoice'' then invoice
         else if str_includes lowerFilename ''sow''
                 \<or> str_includes lowerFilename ''statement of work''
         then sow
         else if str_includes lowerFilename ''msa''
                 \<or> str_includes lowerFilename ''master service''
         then msa
         else scan_patterns content_patterns lowerText)"

text \<open>
  The specification's wording of the file-name rule, to compare the code with: a fixed
  priority list of types with their file-name keywords, and the first entry one of whose
  keywords occurs in the lower-cased file name.
\<close>

definition filename_priority :: "(DocumentType \<times> string list) list" where
  "filename_priority =
     [(nda, [''nda'', ''non-disclosure'']),
      (proposal, [''proposal'']),
      (contract, [''contract'']),
      (agreement, [''agreement'']),
      (invoice, [''invoice'']),
      (sow, [''sow'', ''statement of work'']),
      (msa, [''msa'', ''master service''])]"

definition first_filename_match :: "string \<Rightarrow> DocumentType option" where
  "first_filename_match filename =
     map_option fst
       (find (\<lambda>entry. list_ex (str_includes (toLowerCase filename)) (snd entry))
          filename_priority)"

section \<open>Identifiers\<close>

text \<open>
  \<open>randomUUID()\<close> is the only source of nondeterminism in the functions below. It is
  modelled by an arbitrary sequence of identifiers \<open>uuid\<close> and the number of
  identifiers drawn so far, which every function that draws identifiers takes and returns.
  \<open>push_with_id mk uuid x\<close> is one loop iteration of the form
  \<open>out.push({ id: randomUUID(), ... })\<close> on the pair (array, identifiers drawn).
\<close>

type_synonym uuid_source = "nat \<Rightarrow> string"

definition push_with_id ::
  "(string \<Rightarrow> 'a \<Rightarrow> 'b) \<Rightarrow> uuid_source \<Rightarrow> 'a \<Rightarrow> 'b list \<times> nat \<Rightarrow> 'b list \<times> nat" where
  "push_with_id mk uuid x st = (fst st @ [mk (uuid (snd st)) x], Suc (snd st))"

section \<open>Deal blockers\<close>

definition signature_blocker :: "string \<Rightarrow> DealBlocker" where
  "signature_blocker uid =
     \<lparr>blocker_id = uid, blocker_type = missing_signature,
      blocker_title = ''Signatures Required'',
      blocker_description = ''The document requires signatures to be legally binding.'',
      requiredAction = ''Obtain signatures from all parties.'',
      assignedTo = None, dueDate = None\<rparr>"

definition risk_blocker :: "string \<Rightarrow> DocumentRisk \<Rightarrow> DealBlocker" where
  "risk_blocker uid risk =
     \<lparr>blocker_id = uid, blocker_type = legal_review,
      blocker_title = ''Critical Risk: '' @ risk_title risk,
      blocker_description = risk_description risk,
      requiredAction = recommendation risk,
      assignedTo = None, dueDate = None\<rparr>"

definition term_blocker :: "string \<Rightarrow> MissingTerm \<Rightarrow> DealBlocker" where
  "term_blocker uid t =
     \<lparr>blocker_id = uid, blocker_type = negotiation_required,
      blocker_title = ''Missing: '' @ term_name t,
      blocker_description = term_description t,
      requiredAction = ''Add '' @ term_name t @ '' to the document.'',
      assignedTo = None, dueDate = None\<rparr>"

text \<open>The result is the array of blockers and the number of identifiers drawn.\<close>

definition identifyBlockers ::
  "uuid_source \<Rightarrow> nat \<Rightarrow> string \<Rightarrow> DocumentRisk list \<Rightarrow> MissingTerm list
     \<Rightarrow> DealBlocker list \<times> nat" where
  "identifyBlockers uuid n text risks missingTerms =
     (let lowerText = toLowerCase text;
          st = ([], n);
          st = (if \<not> str_includes lowerText ''signature''
                   \<and> \<not> str_includes lowerText ''signed by''
                then (fst st @ [signature_blocker (uuid (snd st))], Suc (snd st))
                else st);
          criticalRisks = filter (\<lambda>r. severity r = critical) risks;
          st = fold (push_with_id risk_blocker uuid) criticalRisks st;
          requiredMissing = filter (\<lambda>t. importance t = required) missingTerms;
          st = fold (push_with_id term_blocker uuid) requiredMissing st
      in st)"

section \<open>Required actions\<close>

record RequiredAction =
  action_id :: string
  priority :: Priority
  action :: string
  reason :: string
  deadline :: "string option"
  status :: ActionStatus

definition risk_action :: "string \<Rightarrow> DocumentRisk \<Rightarrow> RequiredAction" where
  "risk_action uid risk =
     \<lparr>action_id = uid,
      priority = (if severity risk = critical then P_urgent else P_high),
      action = recommendation risk,
      reason = risk_description risk,
      deadline = None, status = pending\<rparr>"

definition blocker_action :: "string \<Rightarrow> DealBlocker \<Rightarrow> RequiredAction" where
  "blocker_action uid blocker =
     \<lparr>action_id = uid,
      priority = (if blocker_type blocker = missing_signature then P_urgent else P_high),
      action = requiredAction blocker,
      reason = blocker_description blocker,
      deadline = None, status = pending\<rparr>"

definition term_action :: "string \<Rightarrow> MissingTerm \<Rightarrow> RequiredAction" where
  "term_action uid t =
     \<lparr>action_id = uid,
      priority = P_medium,
      action = ''Add '' @ term_name t @ '' to the document'',
      reason = impact t,
      deadline = None, status = pending\<rparr>"

fun priorityOrder :: "Priority \<Rightarrow> int" where
  "priorityOrder P_urgent = 0"
| "priorityOrder P_high = 1"
| "priorityOrder P_medium = 2"
| "priorityOrder P_low = 3"

text \<open>
  \<open>Array.prototype.sort(cmp)\<close> is the platform's (Node.js 18 or later). ECMAScript
  (2019 and later) requires it to be stable, and to sort by \<open>cmp\<close> when \<open>cmp\<close> is a
  consistent comparator. It is modelled by a stable sort that puts the elements one by
  one, from left to right, into the sorted prefix: an element goes behind every element
  that does not compare greater than it.
\<close>

fun insert_sorted :: "('a \<Rightarrow> 'a \<Rightarrow> int) \<Rightarrow> 'a \<Rightarrow> 'a list \<Rightarrow> 'a list" where
  "insert_sorted cmp x [] = [x]"
| "insert_sorted cmp x (y # ys) =
     (if cmp y x > 0 then x # y # ys else y # insert_sorted cmp x ys)"

definition Array_sort :: "('a \<Rightarrow> 'a \<Rightarrow> int) \<Rightarrow> 'a list \<Rightarrow> 'a list" where
  "Array_sort cmp xs = fold (insert_sorted cmp) xs []"

text \<open>
  The array \<open>actions\<close> after the three loops of \<open>generateRequiredActions\<close>, before it
  is sorted (with the number of identifiers drawn).
\<close>

definition pushed_actions ::
  "uuid_source \<Rightarrow> nat \<Rightarrow> DocumentRisk list \<Rightarrow> MissingTerm list \<Rightarrow> DealBlocker list
     \<Rightarrow> RequiredAction list \<times> nat" where
  "pushed_actions uuid n risks missingTerms blockers =
     (let st = ([], n);
          st = fold (push_with_id risk_action uuid)
                 (filter (\<lambda>r. severity r = critical \<or> severity r = high) risks) st;
          st = fold (push_with_id blocker_action uuid) blockers st;
          st = fold (push_with_id term_action uuid)
                 (filter (\<lambda>t. importance t = required) missingTerms) st
      in st)"

definition generateRequiredActions ::
  "uuid_source \<Rightarrow> nat \<Rightarrow> DocumentRisk list \<Rightarrow> MissingTerm list \<Rightarrow> DealBlocker list
     \<Rightarrow> RequiredAction list \<times> nat" where
  "generateRequiredActions uuid n risks missingTerms blockers =
     (let st = pushed_actions uuid n risks missingTerms blockers;
          actions = Array_sort
                      (\<lambda>a b. priorityOrder (priority a) - priorityOrder (priority b)) (fst st)
      in (actions, snd st))"

section \<open>The AI-backed analyzer\<close>

datatype EntityType =
  party_name | date | amount | term_duration | payment_terms | liability_clause
  | termination_clause | confidentiality_clause | indemnification_clause | governing_law
  | signature | contact_info

record Location =
  page :: "rat option"
  position :: "string option"

record ExtractedEntity =
  entity_type :: EntityType
  entity_value :: string
  confidence :: rat
  location :: "Location option"

text \<open>
  What the analyzer gets from outside is typed \<open>any\<close> in TypeScript: the value that
  \<open>JSON.parse\<close> makes of the service's answer. Such values are modelled by \<open>json\<close>
  (an object is the list of its own properties). A value that a function returns is
  either built by the program's own typed code (\<open>Typed\<close>) or comes out of
  \<open>JSON.parse\<close> (\<open>FromJSON\<close>); the declared return type is not checked at run time.
\<close>

datatype json =
  JNull | JBool bool | JNumber rat | JString string | JArray "json list"
  | JObject "(string \<times> json) list"

datatype 'a returned = Typed 'a | FromJSON json

datatype js_error = TypeError | SyntaxError | APIError

text \<open>
  The effects a caller can observe: the program reaches the call of the service with a
  user message, a line on the error log.
\<close>

datatype event = Called string | ConsoleError js_error

text \<open>
  The outside world, as parameters. \<open>chat prompt\<close> is what
  \<open>(await openai.chat.completions.create(...)).choices[0]?.message?.content\<close> does for
  the user message \<open>prompt\<close>: it throws, or yields the content (\<open>None\<close> for \<open>null\<close> and
  \<open>undefined\<close>). \<open>JSON_parse\<close> is \<open>JSON.parse\<close>: it throws or yields a value.
\<close>

type_synonym chat_service = "string \<Rightarrow> js_error + string option"

type_synonym json_parser = "string \<Rightarrow> js_error + json"

text \<open>
  \<open>v.k\<close> for a property name \<open>k\<close> that no array, string, number or boolean has
  (\<open>entities\<close>, \<open>risks\<close>): a TypeError on \<open>null\<close>, the own property of an object,
  \<open>undefined\<close> (\<open>None\<close>) otherwise.
\<close>

fun get_field :: "json \<Rightarrow> string \<Rightarrow> js_error + json option" where
  "get_field JNull k = Inl TypeError"
| "get_field (JObject kvs) k = Inr (map_of kvs k)"
| "get_field v k = Inr None"

fun truthy :: "json \<Rightarrow> bool" where
  "truthy JNull = False"
| "truthy (JBool b) = b"
| "truthy (JNumber x) = (x \<noteq> 0)"
| "truthy (JString s) = (s \<noteq> [])"
| "truthy (JArray xs) = True"
| "truthy (JObject kvs) = True"

text \<open>\<open>a || b\<close>, where \<open>a\<close> may be \<open>undefined\<close>.\<close>

definition js_or :: "json option \<Rightarrow> json \<Rightarrow> json" where
  "js_or a b = (case a of Some v \<Rightarrow> if truthy v then v else b | None \<Rightarrow> b)"

definition entities_prompt :: "string \<Rightarrow> string" where
  "entities_prompt text = ''Extract entities from this document:\<newline>\<newline>'' @ take 8000 text"

text \<open>
  The \<open>try\<close> block of \<open>extractEntities\<close>: \<open>Inl\<close> when it throws, \<open>Inr (Some v)\<close> when
  it returns \<open>v\<close>, \<open>Inr None\<close> when it ends without returning (no content).
\<close>

definition extractEntities_try :: "chat_service \<Rightarrow> json_parser \<Rightarrow> string \<Rightarrow> js_error + json option" where
  "extractEntities_try chat JSON_parse text =
     (case chat (entities_prompt text) of
        Inl error \<Rightarrow> Inl error
      | Inr None \<Rightarrow> Inr None
      | Inr (Some content) \<Rightarrow>
          if content = [] then Inr None
          else (case JSON_parse content of
                  Inl error \<Rightarrow> Inl error
                | Inr parsed \<Rightarrow>
                    (case get_field parsed ''entities'' of
                       Inl error \<Rightarrow> Inl error
                     | Inr parsed_entities \<Rightarrow> Inr (Some (js_or parsed_entities parsed)))))"

text \<open>
  \<open>extractEntities\<close>. The pattern-based fallback \<open>extractEntitiesWithPatterns\<close> (six
  regular expressions applied with \<open>matchAll\<close>) is a pure function of the text that does
  not throw; it is a parameter. The result is the returned value, or the exception that
  reaches the caller, together with the effects.
\<close>

definition extractEntities ::
  "string \<Rightarrow> chat_service \<Rightarrow> json_parser \<Rightarrow> (string \<Rightarrow> ExtractedEntity list) \<Rightarrow> string
     \<Rightarrow> (js_error + ExtractedEntity list returned) \<times> event list" where
  "extractEntities apiKey chat JSON_parse extractEntitiesWithPatterns text =
     (if apiKey = [] then (Inr (Typed (extractEntitiesWithPatterns text)), [])
      else (case extractEntities_try chat JSON_parse text of
              Inr (Some v) \<Rightarrow> (Inr (FromJSON v), [Called (entities_prompt text)])
            | Inr None \<Rightarrow>
                (Inr (Typed (extractEntitiesWithPatterns text)), [Called (entities_prompt text)])
            | Inl error \<Rightarrow>
                (Inr (Typed (extractEntitiesWithPatterns text)),
                 [Called (entities_prompt text), ConsoleError error])))"

subsection \<open>Rule-based risks\<close>

definition standardClauses :: "(string \<times> string list) list" where
  "standardClauses =
     [(''termination'', [''termination'', ''terminate'', ''cancellation'']),
      (''liability'', [''liability'', ''limitation of liability'', ''damages'']),
      (''indemnification'', [''indemnify'', ''indemnification'', ''hold harmless'']),
      (''confidentiality'', [''confidential'', ''proprietary'', ''non-disclosure'']),
      (''governing law'', [''governing law'', ''jurisdiction'', ''venue''])]"

definition missing_clause_risk :: "string \<Rightarrow> string \<times> string list \<Rightarrow> DocumentRisk" where
  "missing_clause_risk uid clause =
     \<lparr>risk_id = uid, category = missing_clause, severity = medium,
      risk_title = ''Missing '' @ fst clause @ '' clause'',
      risk_description =
        ''The document does not appear to contain a '' @ fst clause @ '' clause.'',
      recommendation = ''Add a '' @ fst clause @ '' clause to protect your interests.'',
      relatedClauses = None\<rparr>"

definition clause_step ::
  "uuid_source \<Rightarrow> string \<Rightarrow> string \<times> string list \<Rightarrow> DocumentRisk list \<times> nat
     \<Rightarrow> DocumentRisk list \<times> nat" where
  "clause_step uuid lowerText clause st =
     (let found = list_ex (\<lambda>kw. str_includes lowerText kw) (snd clause)
      in if \<not> found then push_with_id missing_clause_risk uuid clause st else st)"

text \<open>
  The four regular expressions, as tests on the text. Three are literals with the flag
  \<open>i\<close>; \<open>/waive.*rights?/i\<close> matches when \<open>waive\<close> is followed, before the next line
  terminator, by \<open>right\<close> (the optional \<open>s\<close> decides nothing for a test).
\<close>

definition test_literal_i :: "string \<Rightarrow> string \<Rightarrow> bool" where
  "test_literal_i lit text = str_includes (toLowerCase text) lit"

fun waive_then_right :: "string \<Rightarrow> bool" where
  "waive_then_right [] = False"
| "waive_then_right (c # cs) =
     ((startsWith (c # cs) ''waive''
        \<and> str_includes
             (takeWhile (\<lambda>x. x \<noteq> CHR 0x0A \<and> x \<noteq> CHR 0x0D) (drop 5 (c # cs))) ''right'')
      \<or> waive_then_right cs)"

definition test_waive_rights :: "string \<Rightarrow> bool" where
  "test_waive_rights text = waive_then_right (toLowerCase text)"

definition unfavorablePatterns :: "((string \<Rightarrow> bool) \<times> string \<times> RiskSeverity) list" where
  "unfavorablePatterns =
     [(test_literal_i ''unlimited liability'', ''Unlimited Liability'', high),
      (test_waive_rights, ''Rights Waiver'', medium),
      (test_literal_i ''automatic renewal'', ''Auto-Renewal'', low),
      (test_literal_i ''non-compete'', ''Non-Compete Clause'', medium)]"

definition unfavorable_risk ::
  "string \<Rightarrow> (string \<Rightarrow> bool) \<times> string \<times> RiskSeverity \<Rightarrow> DocumentRisk" where
  "unfavorable_risk uid entry =
     (let title = fst (snd entry); severity = snd (snd entry)
      in \<lparr>risk_id = uid, category = unfavorable_terms, severity = severity,
          risk_title = title,
          risk_description =
            ''The document contains '' @ toLowerCase title @ '' language that may be unfavorable.'',
          recommendation =
            ''Review and potentially negotiate the '' @ toLowerCase title @ '' terms.'',
          relatedClauses = None\<rparr>)"

definition pattern_step ::
  "uuid_source \<Rightarrow> string \<Rightarrow> (string \<Rightarrow> bool) \<times> string \<times> RiskSeverity
     \<Rightarrow> DocumentRisk list \<times> nat \<Rightarrow> DocumentRisk list \<times> nat" where
  "pattern_step uuid text entry st =
     (if fst entry text then push_with_id unfavorable_risk uuid entry st else st)"

definition identifyRisksWithRules ::
  "uuid_source \<Rightarrow> nat \<Rightarrow> string \<Rightarrow> string \<Rightarrow> DocumentRisk list \<times> nat" where
  "identifyRisksWithRules uuid n text documentType =
     (let lowerText = toLowerCase text;
          st = fold (clause_step uuid lowerText) standardClauses ([], n);
          st = fold (pattern_step uuid text) unfavorablePatterns st
      in st)"

subsection \<open>AI-backed risks\<close>

text \<open>Decimal digits of a number: the property names of the elements of an array.\<close>

fun decimal :: "nat \<Rightarrow> string" where
  "decimal n =
     (if n < 10 then [char_of (48 + n)] else decimal (n div 10) @ [char_of (48 + n mod 10)])"

text \<open>
  The own enumerable properties that \<open>{...r}\<close> copies: those of an object, the indexed
  elements of an array, the indexed characters of a string, nothing for \<open>null\<close>, a number
  or a boolean. \<open>with_fresh_id uid r\<close> is \<open>{...r, id: uid}\<close>.
\<close>

fun spread_props :: "json \<Rightarrow> (string \<times> json) list" where
  "spread_props (JObject kvs) = kvs"
| "spread_props (JArray xs) = zip (map decimal [0..<length xs]) xs"
| "spread_props (JString s) = zip (map decimal [0..<length s]) (map (\<lambda>c. JString [c]) s)"
| "spread_props v = []"

definition with_fresh_id :: "string \<Rightarrow> json \<Rightarrow> json" where
  "with_fresh_id uid r = JObject (AList.update ''id'' (JString uid) (spread_props r))"

definition risks_prompt :: "string \<Rightarrow> string \<Rightarrow> string" where
  "risks_prompt text documentType =
     ''Analyze this '' @ documentType @ '' for risks:\<newline>\<newline>'' @ take 8000 text"

text \<open>
  The \<open>try\<close> block of \<open>identifyRisks\<close>. \<open>risks.map\<close> is a TypeError unless \<open>risks\<close> is
  an array: no other JSON value has a function \<open>map\<close>.
\<close>

definition identifyRisks_try ::
  "chat_service \<Rightarrow> json_parser \<Rightarrow> uuid_source \<Rightarrow> nat \<Rightarrow> string \<Rightarrow> string
     \<Rightarrow> js_error + (json \<times> nat) option" where
  "identifyRisks_try chat JSON_parse uuid n text documentType =
     (case chat (risks_prompt text documentType) of
        Inl error \<Rightarrow> Inl error
      | Inr None \<Rightarrow> Inr None
      | Inr (Some content) \<Rightarrow>
          if content = [] then Inr None
          else (case JSON_parse content of
                  Inl error \<Rightarrow> Inl error
                | Inr parsed \<Rightarrow>
                    (case get_field parsed ''risks'' of
                       Inl error \<Rightarrow> Inl error
                     | Inr parsed_risks \<Rightarrow>
                         (case js_or parsed_risks (JArray []) of
                            JArray risks \<Rightarrow>
                              (let st = fold (push_with_id with_fresh_id uuid) risks ([], n)
                               in Inr (Some (JArray (fst st), snd st)))
                          | _ \<Rightarrow> Inl TypeError))))"

text \<open>The result: the returned value or the exception, the identifiers drawn, the effects.\<close>

definition identifyRisks ::
  "string \<Rightarrow> chat_service \<Rightarrow> json_parser \<Rightarrow> uuid_source \<Rightarrow> nat \<Rightarrow> string \<Rightarrow> string
     \<Rightarrow> (js_error + DocumentRisk list returned) \<times> nat \<times> event list" where
  "identifyRisks apiKey chat JSON_parse uuid n text documentType =
     (let rules = identifyRisksWithRules uuid n text documentType;
          prompt = risks_prompt text documentType
      in if apiKey = [] then (Inr (Typed (fst rules)), snd rules, [])
         else (case identifyRisks_try chat JSON_parse uuid n text documentType of
                 Inr (Some (v, n')) \<Rightarrow> (Inr (FromJSON v), n', [Called prompt])
               | Inr None \<Rightarrow> (Inr (Typed (fst rules)), snd rules, [Called prompt])
               | Inl error \<Rightarrow>
                   (Inr (Typed (fst rules)), snd rules, [Called prompt, ConsoleError error])))"

subsection \<open>What the declared types require of a run-time value\<close>

definition required_field :: "(json \<Rightarrow> bool) \<Rightarrow> (string \<times> json) list \<Rightarrow> string \<Rightarrow> bool" where
  "required_field P kvs k = (case map_of kvs k of Some v \<Rightarrow> P v | None \<Rightarrow> False)"

definition optional_field :: "(json \<Rightarrow> bool) \<Rightarrow> (string \<times> json) list \<Rightarrow> string \<Rightarrow> bool" where
  "optional_field P kvs k = (case map_of kvs k of Some v \<Rightarrow> P v | None \<Rightarrow> True)"

fun is_string :: "json \<Rightarrow> bool" where
  "is_string (JString s) = True"
| "is_string v = False"

fun is_number :: "json \<Rightarrow> bool" where
  "is_number (JNumber x) = True"
| "is_number v = False"

fun is_one_of :: "string list \<Rightarrow> json \<Rightarrow> bool" where
  "is_one_of names (JString s) = (s \<in> set names)"
| "is_one_of names v = False"

fun is_array_of :: "(json \<Rightarrow> bool) \<Rightarrow> json \<Rightarrow> bool" where
  "is_array_of P (JArray xs) = list_all P xs"
| "is_array_of P v = False"

fun is_Location :: "json \<Rightarrow> bool" where
  "is_Location (JObject kvs) =
     (optional_field is_number kvs ''page'' \<and> optional_field is_string kvs ''position'')"
| "is_Location v = False"

fun is_ExtractedEntity :: "json \<Rightarrow> bool" where
  "is_ExtractedEntity (JObject kvs) =
     (required_field
        (is_one_of [''party_name'', ''date'', ''amount'', ''term_duration'', ''payment_terms'',
           ''liability_clause'', ''termination_clause'', ''confidentiality_clause'',
           ''indemnification_clause'', ''governing_law'', ''signature'', ''contact_info''])
        kvs ''type''
      \<and> required_field is_string kvs ''value''
      \<and> required_field is_number kvs ''confidence''
      \<and> optional_field is_Location kvs ''location'')"
| "is_ExtractedEntity v = False"

fun is_DocumentRisk :: "json \<Rightarrow> bool" where
  "is_DocumentRisk (JObject kvs) =
     (required_field is_string kvs ''id''
      \<and> required_field
          (is_one_of [''missing_clause'', ''unfavorable_terms'', ''compliance_issue'',
             ''liability_exposure'', ''termination_risk'', ''payment_risk'', ''legal_ambiguity''])
          kvs ''category''
      \<and> required_field (is_one_of [''low'', ''medium'', ''high'', ''critical'']) kvs ''severity''
      \<and> required_field is_string kvs ''title''
      \<and> required_field is_string kvs ''description''
      \<and> required_field is_string kvs ''recommendation''
      \<and> optional_field (is_array_of is_string) kvs ''relatedClauses'')"
| "is_DocumentRisk v = False"

text \<open>
  A returned value is well typed when the program built it, or when it is a JSON array
  whose elements have the fields of the declared element type.
\<close>

fun well_typed :: "(json \<Rightarrow> bool) \<Rightarrow> 'a returned \<Rightarrow> bool" where
  "well_typed is_element (Typed x) = True"
| "well_typed is_element (FromJSON j) = is_array_of is_element j"

text \<open>
  What the \<open>try\<close> blocks obtain from outside for a prompt: no answer (the call throws,
  there is no content, or the content is not JSON), or the parsed value.
\<close>

datatype ai_answer = NoAnswer | Answer json

text \<open>The own property \<open>k\<close> of a value that is not \<open>null\<close> (\<open>None\<close> for \<open>undefined\<close>).\<close>

definition field_of :: "json \<Rightarrow> string \<Rightarrow> json option" where
  "field_of v k = (case get_field v k of Inr x \<Rightarrow> x | Inl error \<Rightarrow> None)"

definition answer_of :: "chat_service \<Rightarrow> json_parser \<Rightarrow> string \<Rightarrow> ai_answer" where
  "answer_of chat JSON_parse prompt =
     (case chat prompt of
        Inl error \<Rightarrow> NoAnswer
      | Inr None \<Rightarrow> NoAnswer
      | Inr (Some content) \<Rightarrow>
          if content = [] then NoAnswer
          else (case JSON_parse content of Inl error \<Rightarrow> NoAnswer | Inr parsed \<Rightarrow> Answer parsed))"

text \<open>
  Fixtures: a service that answers every prompt with the given content, one that throws,
  and a parser that agrees with \<open>JSON.parse\<close> on the contents used with it: the empty
  object, the empty array, \<open>null\<close>, an object with one risk without fields, and a text
  that is not JSON. \<open>no_entities\<close> agrees with \<open>extractEntitiesWithPatterns\<close> on texts
  without digits and dollar signs.
\<close>

definition answering :: "string \<Rightarrow> chat_service" where
  "answering content prompt = Inr (Some content)"

definition failing :: chat_service where
  "failing prompt = Inl APIError"

definition JSON_parse_fixture :: json_parser where
  \<open>JSON_parse_fixture content =
     (if content = ''{}'' then Inr (JObject [])
      else if content = ''[]'' then Inr (JArray [])
      else if content = ''null'' then Inr JNull
      else if content = ''{"risks":[{}]}'' then Inr (JObject [(''risks'', JArray [JObject []])])
      else Inl SyntaxError)\<close>

definition uuid_fixture :: uuid_source where
  "uuid_fixture i = ''uuid-'' @ decimal i"

definition no_entities :: "string \<Rightarrow> ExtractedEntity list" where
  "no_entities text = []"

section \<open>The document store\<close>

text \<open>
  The analysis of a document, and the in-memory store \<open>documentStore\<close> (a
  \<open>Map<string, DocumentAnalysis>\<close>). The fields \<open>filename\<close>, \<open>documentType\<close>,
  \<open>risks\<close>, \<open>missingTerms\<close> and \<open>blockers\<close> carry the prefix \<open>analysis_\<close>: the
  functions above use these names for their parameters.
\<close>

record DocumentAnalysis =
  documentId :: string
  analysis_filename :: string
  analysis_documentType :: DocumentType
  uploadedAt :: string
  analyzedAt :: string
  entities :: "ExtractedEntity list"
  analysis_risks :: "DocumentRisk list"
  analysis_missingTerms :: "MissingTerm list"
  analysis_blockers :: "DealBlocker list"
  riskScore :: RiskScore
  summary :: string
  rawText :: "string option"

text \<open>
  The handler of \<open>POST /api/documents/:documentId/reanalyze\<close>, after authentication:
  \<open>now\<close> is what \<open>new Date().toISOString()\<close> reads; the result is the store and the
  response. \<open>webhook_action\<close> is the \<open>switch\<close> of the handler of
  \<open>POST /api/webhooks/action\<close>, which answers the same for every action.
\<close>

type_synonym documentStore = "string \<rightharpoonup> DocumentAnalysis"

datatype reanalyze_response = NotFound_404 | Success_200 DocumentAnalysis

definition reanalyze_route ::
  "string \<Rightarrow> string \<Rightarrow> documentStore \<Rightarrow> documentStore \<times> reanalyze_response" where
  "reanalyze_route now docId store =
     (case store docId of
        None \<Rightarrow> (store, NotFound_404)
      | Some existingAnalysis \<Rightarrow>
          (let existingAnalysis = existingAnalysis\<lparr>analyzedAt := now\<rparr>;
               store = store(docId \<mapsto> existingAnalysis)
           in (store, Success_200 existingAnalysis)))"

definition webhook_action :: "string \<Rightarrow> string \<Rightarrow> string \<Rightarrow> documentStore \<Rightarrow> documentStore" where
  "webhook_action now act docId store =
     (if act = ''reanalyze'' then
        (case store docId of
           Some analysis \<Rightarrow> store(docId \<mapsto> analysis\<lparr>analyzedAt := now\<rparr>)
         | None \<Rightarrow> store)
      else store)"

text \<open>All fields but \<open>analyzedAt\<close> agree.\<close>

definition same_but_analyzedAt :: "DocumentAnalysis \<Rightarrow> DocumentAnalysis \<Rightarrow> bool" where
  "same_but_analyzedAt a a' \<longleftrightarrow>
     documentId a' = documentId a \<and> analysis_filename a' = analysis_filename a
     \<and> analysis_documentType a' = analysis_documentType a \<and> uploadedAt a' = uploadedAt a
     \<and> entities a' = entities a \<and> analysis_risks a' = analysis_risks a
     \<and> analysis_missingTerms a' = analysis_missingTerms a
     \<and> analysis_blockers a' = analysis_blockers a
     \<and> riskScore a' = riskScore a \<and> summary a' = summary a \<and> rawText a' = rawText a"

section \<open>Vocabulary of the proofs, fixtures\<close>

text \<open>
  Proof-side vocabulary for the scoring engine: the share of a risk that goes to the
  bucket fed by the categories \<open>S\<close>, and the fieldwise order on scores.
\<close>

definition bucket_share :: "RiskCategory set \<Rightarrow> DocumentRisk \<Rightarrow> rat" where
  "bucket_share S risk = (if category risk \<in> S then riskScore_of risk else 0)"

definition score_le :: "RiskScore \<Rightarrow> RiskScore \<Rightarrow> bool" where
  "score_le s s' \<longleftrightarrow>
     overall s \<le> overall s'
     \<and> missingClauses (breakdown s) \<le> missingClauses (breakdown s')
     \<and> unfavorableTerms (breakdown s) \<le> unfavorableTerms (breakdown s')
     \<and> complianceIssues (breakdown s) \<le> complianceIssues (breakdown s')
     \<and> liabilityExposure (breakdown s) \<le> liabilityExposure (breakdown s')"

text \<open>Fixtures in the style of the repository's unit tests, used for concrete instances.\<close>

definition test_risk :: "string \<Rightarrow> RiskCategory \<Rightarrow> RiskSeverity \<Rightarrow> DocumentRisk" where
  "test_risk i c s =
     \<lparr>risk_id = i, category = c, severity = s, risk_title = ''Risk'',
      risk_description = ''Desc'', recommendation = ''Fix'', relatedClauses = None\<rparr>"

definition test_term :: "string \<Rightarrow> Importance \<Rightarrow> MissingTerm" where
  "test_term n i =
     \<lparr>term_name = n, importance = i, term_description = ''Missing effective date'',
      impact = ''Document may be invalid''\<rparr>"

definition test_blocker :: "string \<Rightarrow> BlockerType \<Rightarrow> DealBlocker" where
  "test_blocker i ty =
     \<lparr>blocker_id = i, blocker_type = ty, blocker_title = ''Signature'',
      blocker_description = ''Need signature'', requiredAction = ''Get signed'',
      assignedTo = None, dueDate = None\<rparr>"

definition test_analysis :: DocumentAnalysis where
  "test_analysis =
     \<lparr>documentId = ''doc-1'', analysis_filename = ''service-contract.pdf'',
      analysis_documentType = contract,
      uploadedAt = ''2024-01-15T10:00:00.000Z'', analyzedAt = ''2024-01-15T10:00:00.000Z'',
      entities = [],
      analysis_risks = [test_risk ''1'' liability_exposure critical],
      analysis_missingTerms = [], analysis_blockers = [],
      riskScore = calculateRiskScore [test_risk ''1'' liability_exposure critical] [] [],
      summary = ''Summary'', rawText = Some ''Some contract text''\<rparr>"

section \<open>Properties of the scoring engine\<close>

subsection \<open>The loops in closed form\<close>

lemma risk_step_closed:
  "risk_step r (t, b) =
     (t + riskScore_of r,
      \<lparr>missingClauses = missingClauses b + bucket_share {missing_clause} r,
       unfavorableTerms = unfavorableTerms b
          + bucket_share {unfavorable_terms, termination_risk, payment_risk} r,
       complianceIssues = complianceIssues b + bucket_share {compliance_issue, legal_ambiguity} r,
       liabilityExposure = liabilityExposure b + bucket_share {liability_exposure} r\<rparr>)"
  by (cases "category r") (simp_all add: risk_step_def bucket_share_def Let_def)

lemma fold_risk_step:
  "fold risk_step rs (t, b) =
     (t + sum_list (map riskScore_of rs),
      \<lparr>missingClauses = missingClauses b + sum_list (map (bucket_share {missing_clause}) rs),
       unfavorableTerms = unfavorableTerms b
          + sum_list (map (bucket_share {unfavorable_terms, termination_risk, payment_risk}) rs),
       complianceIssues = complianceIssues b
          + sum_list (map (bucket_share {compliance_issue, legal_ambiguity}) rs),
       liabilityExposure = liabilityExposure b
          + sum_list (map (bucket_share {liability_exposure}) rs)\<rparr>)"
proof (induction rs arbitrary: t b)
  case Nil
  show ?case by simp
next
  case (Cons r rs)
  show ?case by (simp add: risk_step_closed Cons.IH add.assoc)
qed

lemma term_step_closed:
  "term_step x (t, b) =
     (t + penalty_of x, b\<lparr>missingClauses := missingClauses b + penalty_of x\<rparr>)"
  by (simp add: term_step_def Let_def)

lemma fold_term_step:
  "fold term_step ts (t, b) =
     (t + sum_list (map penalty_of ts),
      b\<lparr>missingClauses := missingClauses b + sum_list (map penalty_of ts)\<rparr>)"
proof (induction ts arbitrary: t b)
  case Nil
  show ?case by simp
next
  case (Cons x xs)
  show ?case by (simp add: term_step_closed Cons.IH add.assoc)
qed

lemma running_totals_closed:
  "running_totals rs ts bs =
     (sum_list (map riskScore_of rs) + sum_list (map penalty_of ts) + of_nat (length bs) * 5,
      \<lparr>missingClauses =
         sum_list (map (bucket_share {missing_clause}) rs) + sum_list (map penalty_of ts),
       unfavorableTerms =
         sum_list (map (bucket_share {unfavorable_terms, termination_risk, payment_risk}) rs),
       complianceIssues = sum_list (map (bucket_share {compliance_issue, legal_ambiguity}) rs),
       liabilityExposure = sum_list (map (bucket_share {liability_exposure}) rs)\<rparr>)"
  by (simp add: running_totals_def fold_risk_step fold_term_step initial_breakdown_def)

lemma score_fields:
  "overall (calculateRiskScore rs ts bs) = min 100 (Math_round (fst (running_totals rs ts bs)))"
  "missingClauses (breakdown (calculateRiskScore rs ts bs)) =
     min 25 (Math_round (missingClauses (snd (running_totals rs ts bs))))"
  "unfavorableTerms (breakdown (calculateRiskScore rs ts bs)) =
     min 25 (Math_round (unfavorableTerms (snd (running_totals rs ts bs))))"
  "complianceIssues (breakdown (calculateRiskScore rs ts bs)) =
     min 25 (Math_round (complianceIssues (snd (running_totals rs ts bs))))"
  "liabilityExposure (breakdown (calculateRiskScore rs ts bs)) =
     min 25 (Math_round (liabilityExposure (snd (running_totals rs ts bs))))"
  by (simp_all add: calculateRiskScore_def Let_def)

subsection \<open>Exactness of the arithmetic, rounding\<close>

lemma riskScore_of_quarters: "4 * riskScore_of r \<in> \<nat>"
  by (cases "category r"; cases "severity r") (simp_all add: riskScore_of_def)

lemma penalty_of_quarters: "4 * penalty_of t \<in> \<nat>"
  by (simp add: penalty_of_def)

lemma sum_list_quarters:
  "(\<And>x. 4 * f x \<in> \<nat>) \<Longrightarrow> 4 * sum_list (map f xs) \<in> (\<nat> :: rat set)"
  by (induction xs) (simp_all add: distrib_left Nats_add)

lemma running_total_quarters: "4 * fst (running_totals rs ts bs) \<in> \<nat>"
  by (simp add: running_totals_closed distrib_left Nats_add Nats_mult sum_list_quarters
      riskScore_of_quarters penalty_of_quarters)

lemma floor_rat_numeral_div: "\<lfloor>numeral a / numeral b :: rat\<rfloor> = numeral a div numeral b"
  by (metis floor_divide_of_int_eq of_int_numeral)

lemma floor_rat_one_div: "\<lfloor>1 / numeral b :: rat\<rfloor> = 1 div numeral b"
  by (metis floor_divide_of_int_eq of_int_1 of_int_numeral)

lemmas score_eval =
  calculateRiskScore_def running_totals_def risk_step_def term_step_def riskScore_of_def
  penalty_of_def initial_breakdown_def Math_round_def Let_def floor_rat_numeral_div
  floor_rat_one_div test_risk_def test_term_def test_blocker_def

lemma riskScore_of_nonneg: "0 \<le> riskScore_of r"
  by (cases "category r"; cases "severity r") (simp_all add: riskScore_of_def)

lemma penalty_of_nonneg: "0 \<le> penalty_of t"
  by (simp add: penalty_of_def)

lemma bucket_share_nonneg: "0 \<le> bucket_share S r"
  by (simp add: bucket_share_def riskScore_of_nonneg)

lemma sum_list_map_nonneg: "(\<And>x. 0 \<le> f x) \<Longrightarrow> 0 \<le> sum_list (map f xs :: rat list)"
  by (induction xs) simp_all

lemma Math_round_nonneg: "0 \<le> x \<Longrightarrow> 0 \<le> Math_round x"
  by (simp add: Math_round_def)

lemma Math_round_mono: "x \<le> y \<Longrightarrow> Math_round x \<le> Math_round y"
  by (simp add: Math_round_def floor_mono)

lemma capped_round_mono: "x \<le> y \<Longrightarrow> min c (Math_round x) \<le> min c (Math_round y)"
  using Math_round_mono[of x y] by (simp add: min_def)

lemma capped_round_bounds:
  "0 \<le> c \<Longrightarrow> 0 \<le> x \<Longrightarrow> 0 \<le> min c (Math_round x) \<and> min c (Math_round x) \<le> c"
  using Math_round_nonneg[of x] by (simp add: min_def)

lemma running_totals_nonneg:
  "0 \<le> fst (running_totals rs ts bs)"
  "0 \<le> missingClauses (snd (running_totals rs ts bs))"
  "0 \<le> unfavorableTerms (snd (running_totals rs ts bs))"
  "0 \<le> complianceIssues (snd (running_totals rs ts bs))"
  "0 \<le> liabilityExposure (snd (running_totals rs ts bs))"
  by (simp_all add: running_totals_closed sum_list_map_nonneg riskScore_of_nonneg
      penalty_of_nonneg bucket_share_nonneg)

subsection \<open>Order independence\<close>

lemma sum_list_map_mset:
  "mset xs = mset ys \<Longrightarrow> sum_list (map f xs) = sum_list (map (f :: 'a \<Rightarrow> rat) ys)"
  by (metis mset_map sum_mset_sum_list)

lemma running_totals_perm:
  assumes "mset rs = mset rs'" "mset ts = mset ts'" "mset bs = mset bs'"
  shows "running_totals rs ts bs = running_totals rs' ts' bs'"
proof -
  have "length bs = length bs'"
    using assms(3) by (metis size_mset)
  then show ?thesis
    by (simp add: running_totals_closed sum_list_map_mset[OF assms(1)]
        sum_list_map_mset[OF assms(2)])
qed

text \<open>
  Claim C1. \<open>calculateRiskScore\<close> is order-independent: whenever each of the three
  input lists is replaced by a permutation of itself (a list with the same multiset of
  elements), the returned \<open>RiskScore\<close> record (overall, the four breakdown fields, the
  grade) is the same.
\<close>

theorem calculateRiskScore_order_independent:
  assumes "mset risks = mset risks'"
    and "mset missingTerms = mset missingTerms'"
    and "mset blockers = mset blockers'"
  shows "calculateRiskScore risks missingTerms blockers =
         calculateRiskScore risks' missingTerms' blockers'"
  unfolding calculateRiskScore_def running_totals_perm[OF assms] ..

theorem calculateRiskScore_order_independent_witness:
  "calculateRiskScore
     [test_risk ''1'' missing_clause medium, test_risk ''2'' liability_exposure high,
      test_risk ''3'' payment_risk low]
     [test_term ''Effective Date'' required, test_term ''Timeline'' optional]
     [test_blocker ''1'' missing_signature, test_blocker ''2'' legal_review]
   = calculateRiskScore
     [test_risk ''3'' payment_risk low, test_risk ''1'' missing_clause medium,
      test_risk ''2'' liability_exposure high]
     [test_term ''Timeline'' optional, test_term ''Effective Date'' required]
     [test_blocker ''2'' legal_review, test_blocker ''1'' missing_signature]"
  by (rule calculateRiskScore_order_independent) simp_all

text \<open>
  Claim C2. One risk with category \<open>liability_exposure\<close> and severity \<open>critical\<close>
  (its other fields arbitrary), no missing terms and no blockers: the overall score
  is 30, the liabilityExposure bucket is 25 (30 capped at 25, while the overall score is
  capped at 100 only), the three other buckets are 0 and the grade is B.
\<close>

theorem single_critical_liability_risk:
  "calculateRiskScore [r\<lparr>category := liability_exposure, severity := critical\<rparr>] [] [] =
     \<lparr>overall = 30,
      breakdown = \<lparr>missingClauses = 0, unfavorableTerms = 0, complianceIssues = 0,
                   liabilityExposure = 25\<rparr>,
      grade = Grade_B, trend = None\<rparr>"
  by (simp add: score_eval)

theorem single_critical_liability_risk_witness:
  "overall (calculateRiskScore [test_risk ''1'' liability_exposure critical] [] []) = 30
   \<and> liabilityExposure
        (breakdown (calculateRiskScore [test_risk ''1'' liability_exposure critical] [] [])) = 25
   \<and> grade (calculateRiskScore [test_risk ''1'' liability_exposure critical] [] []) = Grade_B"
  using single_critical_liability_risk [of "test_risk ''1'' liability_exposure critical"]
  by (simp add: test_risk_def)

text \<open>
  Claim C3. For all inputs, the overall score lies in 0..100 and each of the four
  breakdown fields lies in 0..25; each bound holds on its own.
\<close>

theorem calculateRiskScore_bounds:
  fixes risks missingTerms blockers
  defines "s \<equiv> calculateRiskScore risks missingTerms blockers"
  shows "0 \<le> overall s \<and> overall s \<le> 100
    \<and> 0 \<le> missingClauses (breakdown s) \<and> missingClauses (breakdown s) \<le> 25
    \<and> 0 \<le> unfavorableTerms (breakdown s) \<and> unfavorableTerms (breakdown s) \<le> 25
    \<and> 0 \<le> complianceIssues (breakdown s) \<and> complianceIssues (breakdown s) \<le> 25
    \<and> 0 \<le> liabilityExposure (breakdown s) \<and> liabilityExposure (breakdown s) \<le> 25"
  unfolding s_def score_fields
  using capped_round_bounds[of 100, OF _ running_totals_nonneg(1)[of risks missingTerms blockers]]
        capped_round_bounds[of 25, OF _ running_totals_nonneg(2)[of risks missingTerms blockers]]
        capped_round_bounds[of 25, OF _ running_totals_nonneg(3)[of risks missingTerms blockers]]
        capped_round_bounds[of 25, OF _ running_totals_nonneg(4)[of risks missingTerms blockers]]
        capped_round_bounds[of 25, OF _ running_totals_nonneg(5)[of risks missingTerms blockers]]
  by simp

text \<open>
  Claim C9. Appending one risk, one missing term or one blocker to the respective
  input list never lowers the overall score nor any of the four breakdown fields.
\<close>

theorem calculateRiskScore_monotone:
  "score_le (calculateRiskScore rs ts bs) (calculateRiskScore (rs @ [r]) ts bs)
   \<and> score_le (calculateRiskScore rs ts bs) (calculateRiskScore rs (ts @ [t]) bs)
   \<and> score_le (calculateRiskScore rs ts bs) (calculateRiskScore rs ts (bs @ [b]))"
proof (intro conjI)
  show "score_le (calculateRiskScore rs ts bs) (calculateRiskScore (rs @ [r]) ts bs)"
    unfolding score_le_def score_fields
    by (intro conjI capped_round_mono)
       (simp_all add: running_totals_closed riskScore_of_nonneg bucket_share_nonneg)
  show "score_le (calculateRiskScore rs ts bs) (calculateRiskScore rs (ts @ [t]) bs)"
    unfolding score_le_def score_fields
    by (intro conjI capped_round_mono) (simp_all add: running_totals_closed penalty_of_nonneg)
  show "score_le (calculateRiskScore rs ts bs) (calculateRiskScore rs ts (bs @ [b]))"
    unfolding score_le_def score_fields
    by (intro conjI capped_round_mono) (simp_all add: running_totals_closed)
qed

section \<open>Properties of the document classifier\<close>

lemma startsWith_iff: "startsWith s k \<longleftrightarrow> (\<exists>q. s = k @ q)"
  by (induction s k rule: startsWith.induct) auto

lemma str_includes_iff: "str_includes s k \<longleftrightarrow> (\<exists>p q. s = p @ k @ q)"
proof (induction s)
  case Nil
  show ?case by auto
next
  case (Cons c cs)
  show ?case
  proof
    assume "str_includes (c # cs) k"
    then consider "startsWith (c # cs) k" | "str_includes cs k"
      by auto
    then show "\<exists>p q. c # cs = p @ k @ q"
    proof cases
      case 1
      then obtain q where "c # cs = k @ q"
        by (auto simp: startsWith_iff)
      then have "c # cs = [] @ k @ q"
        by simp
      then show ?thesis by blast
    next
      case 2
      then obtain p q where "cs = p @ k @ q"
        using Cons.IH by auto
      then have "c # cs = (c # p) @ k @ q"
        by simp
      then show ?thesis by blast
    qed
  next
    assume "\<exists>p q. c # cs = p @ k @ q"
    then obtain p q where pq: "c # cs = p @ k @ q"
      by auto
    show "str_includes (c # cs) k"
    proof (cases p)
      case Nil
      with pq have "startsWith (c # cs) k"
        by (auto simp: startsWith_iff)
      then show ?thesis by simp
    next
      case (Cons a p')
      with pq have "cs = p' @ k @ q"
        by simp
      then have "str_includes cs k"
        using Cons.IH by blast
      then show ?thesis by simp
    qed
  qed
qed

lemma detectDocumentType_by_priority:
  "detectDocumentType text filename =
     (case first_filename_match filename of
        Some ty \<Rightarrow> ty
      | None \<Rightarrow> scan_patterns content_patterns (toLowerCase text))"
  by (simp add: detectDocumentType_def first_filename_match_def filename_priority_def Let_def
      del: str_includes.simps startsWith.simps)

lemma toLowerCase_MSA_Acme: "toLowerCase ''MSA-Acme.pdf'' = ''msa-acme.pdf''"
  by code_simp

lemma msa_acme_checks:
  "\<not> str_includes ''msa-acme.pdf'' ''nda''"
  "\<not> str_includes ''msa-acme.pdf'' ''non-disclosure''"
  "\<not> str_includes ''msa-acme.pdf'' ''proposal''"
  "\<not> str_includes ''msa-acme.pdf'' ''contract''"
  "\<not> str_includes ''msa-acme.pdf'' ''agreement''"
  "\<not> str_includes ''msa-acme.pdf'' ''invoice''"
  "\<not> str_includes ''msa-acme.pdf'' ''sow''"
  "\<not> str_includes ''msa-acme.pdf'' ''statement of work''"
  "str_includes ''msa-acme.pdf'' ''msa''"
  by code_simp+

lemma detectDocumentType_MSA_Acme: "detectDocumentType text ''MSA-Acme.pdf'' = msa"
  by (simp add: detectDocumentType_def Let_def toLowerCase_MSA_Acme msa_acme_checks
      del: str_includes.simps)

lemma scan_patterns_range:
  "scan_patterns ps lowerText = unknown \<or> scan_patterns ps lowerText \<in> fst ` set ps"
  by (induction ps) (auto simp: Let_def)

lemma agreement_not_in_content_patterns: "agreement \<notin> fst ` set content_patterns"
  by (simp add: content_patterns_def)

lemma scan_content_not_agreement: "scan_patterns content_patterns lowerText \<noteq> agreement"
proof
  assume "scan_patterns content_patterns lowerText = agreement"
  with scan_patterns_range[of content_patterns lowerText]
  have "agreement = unknown \<or> agreement \<in> fst ` set content_patterns"
    by simp
  then show False
    using agreement_not_in_content_patterns by simp
qed

text \<open>
  Claim C6. The file name decides before the content does, in the priority order nda,
  proposal, contract, agreement, invoice, sow, msa with the first match winning: the
  result is the type of the first entry of the priority list that matches the file name,
  whatever the text is, and the content is scanned only when no entry matches. In
  particular the file name \<open>MSA-Acme.pdf\<close> is classified \<open>msa\<close> for every text.
\<close>

theorem filename_takes_precedence:
  "detectDocumentType text filename =
     (case first_filename_match filename of
        Some ty \<Rightarrow> ty
      | None \<Rightarrow> scan_patterns content_patterns (toLowerCase text))
   \<and> detectDocumentType text ''MSA-Acme.pdf'' = msa"
  using detectDocumentType_by_priority detectDocumentType_MSA_Acme by simp

theorem filename_takes_precedence_witness:
  "first_filename_match ''non-disclosure-agreement.pdf'' = Some nda
   \<and> detectDocumentType ''This agreement contains terms and conditions.''
        ''non-disclosure-agreement.pdf'' = nda"
proof -
  have m: "first_filename_match ''non-disclosure-agreement.pdf'' = Some nda"
    by code_simp
  show ?thesis
    using filename_takes_precedence
      [of "''This agreement contains terms and conditions.''" "''non-disclosure-agreement.pdf''"]
    by (simp add: m)
qed

text \<open>
  Claim C10. The type \<open>agreement\<close> is reachable through the file name only: when the
  lower-cased file name does not contain \<open>agreement\<close>, the result is not \<open>agreement\<close>,
  whatever the text is. The content table has no entry of type \<open>agreement\<close>; its keyword
  \<open>agreement\<close> belongs to the entry of type \<open>contract\<close>.
\<close>

theorem agreement_only_from_filename:
  assumes "\<not> str_includes (toLowerCase filename) ''agreement''"
  shows "detectDocumentType text filename \<noteq> agreement
    \<and> agreement \<notin> fst ` set content_patterns
    \<and> (\<exists>kws. (contract, kws) \<in> set content_patterns \<and> ''agreement'' \<in> set kws)"
proof (intro conjI)
  show "detectDocumentType text filename \<noteq> agreement"
    using assms
    by (simp add: detectDocumentType_def Let_def scan_content_not_agreement
        del: str_includes.simps)
  show "agreement \<notin> fst ` set content_patterns"
    by (rule agreement_not_in_content_patterns)
  show "\<exists>kws. (contract, kws) \<in> set content_patterns \<and> ''agreement'' \<in> set kws"
    by (simp add: content_patterns_def)
qed

theorem agreement_only_from_filename_witness:
  "\<not> str_includes (toLowerCase ''document.pdf'') ''agreement''
   \<and> detectDocumentType
        ''This agreement contains terms and conditions. The parties hereby agree to the following.''
        ''document.pdf'' = contract"
proof -
  have h: "\<not> str_includes (toLowerCase ''document.pdf'') ''agreement''"
    by code_simp
  have c: "detectDocumentType
        ''This agreement contains terms and conditions. The parties hereby agree to the following.''
        ''document.pdf'' = contract"
    by code_simp
  from agreement_only_from_filename [OF h] h c show ?thesis
    by blast
qed

section \<open>Properties of the blocker rules\<close>

lemma push_with_id_pair:
  "push_with_id mk uuid x (acc, k) = (acc @ [mk (uuid k) x], Suc k)"
  by (simp add: push_with_id_def)

lemma fold_push_with_id:
  "fold (push_with_id mk uuid) xs (acc, k) =
     (acc @ map (\<lambda>(i, x). mk (uuid i) x) (enumerate k xs), k + length xs)"
proof (induction xs arbitrary: acc k)
  case Nil
  show ?case by simp
next
  case (Cons x xs)
  show ?case by (simp add: push_with_id_pair Cons.IH)
qed

lemma map_const_enumerate: "map (\<lambda>(i, x). c) (enumerate k xs) = map (\<lambda>x. c) xs"
  by (induction xs arbitrary: k) simp_all

lemma blocker_types:
  "blocker_type (signature_blocker u) = missing_signature"
  "blocker_type (risk_blocker u r) = legal_review"
  "blocker_type (term_blocker u t) = negotiation_required"
  by (simp_all add: signature_blocker_def risk_blocker_def term_blocker_def)

lemma identifyBlockers_closed:
  "identifyBlockers uuid n text risks missingTerms =
     (let sig = (if \<not> str_includes (toLowerCase text) ''signature''
                    \<and> \<not> str_includes (toLowerCase text) ''signed by''
                 then [signature_blocker (uuid n)] else []);
          crit = filter (\<lambda>r. severity r = critical) risks;
          req = filter (\<lambda>t. importance t = required) missingTerms
      in (sig
          @ map (\<lambda>(i, r). risk_blocker (uuid i) r) (enumerate (n + length sig) crit)
          @ map (\<lambda>(i, t). term_blocker (uuid i) t)
              (enumerate (n + length sig + length crit) req),
          n + length sig + length crit + length req))"
  by (simp add: identifyBlockers_def Let_def fold_push_with_id del: str_includes.simps)

lemma identifyBlockers_types:
  "map blocker_type (fst (identifyBlockers uuid n text risks missingTerms)) =
     (if \<not> str_includes (toLowerCase text) ''signature''
         \<and> \<not> str_includes (toLowerCase text) ''signed by''
      then [missing_signature] else [])
     @ map (\<lambda>r. legal_review) (filter (\<lambda>r. severity r = critical) risks)
     @ map (\<lambda>t. negotiation_required) (filter (\<lambda>t. importance t = required) missingTerms)"
  by (simp add: identifyBlockers_closed Let_def blocker_types split_def
      map_const_enumerate[unfolded split_def] o_def del: str_includes.simps)

text \<open>
  Claim C7. The blockers returned are, in this order: the \<open>missing_signature\<close> blocker
  when the lower-cased text contains neither \<open>signature\<close> nor \<open>signed by\<close>; one
  \<open>legal_review\<close> blocker for each risk of severity \<open>critical\<close>, in the order of the
  risks; one \<open>negotiation_required\<close> blocker for each missing term of importance
  \<open>required\<close>, in the order of the terms; each with the next identifier drawn. In
  particular, for a text without signature keyword, no risks and no missing terms, the
  result is exactly one blocker, of type \<open>missing_signature\<close>.
\<close>

theorem identifyBlockers_exactly:
  "identifyBlockers uuid n text risks missingTerms =
     (let sig = (if \<not> str_includes (toLowerCase text) ''signature''
                    \<and> \<not> str_includes (toLowerCase text) ''signed by''
                 then [signature_blocker (uuid n)] else []);
          crit = filter (\<lambda>r. severity r = critical) risks;
          req = filter (\<lambda>t. importance t = required) missingTerms
      in (sig
          @ map (\<lambda>(i, r). risk_blocker (uuid i) r) (enumerate (n + length sig) crit)
          @ map (\<lambda>(i, t). term_blocker (uuid i) t)
              (enumerate (n + length sig + length crit) req),
          n + length sig + length crit + length req))
   \<and> map blocker_type (fst (identifyBlockers uuid n text risks missingTerms)) =
       (if \<not> str_includes (toLowerCase text) ''signature''
           \<and> \<not> str_includes (toLowerCase text) ''signed by''
        then [missing_signature] else [])
       @ map (\<lambda>r. legal_review) (filter (\<lambda>r. severity r = critical) risks)
       @ map (\<lambda>t. negotiation_required) (filter (\<lambda>t. importance t = required) missingTerms)
   \<and> (\<not> str_includes (toLowerCase text) ''signature''
        \<and> \<not> str_includes (toLowerCase text) ''signed by''
      \<longrightarrow> fst (identifyBlockers uuid n text [] []) = [signature_blocker (uuid n)]
          \<and> blocker_type (signature_blocker (uuid n)) = missing_signature)"
proof (intro conjI impI)
  show "identifyBlockers uuid n text risks missingTerms =
     (let sig = (if \<not> str_includes (toLowerCase text) ''signature''
                    \<and> \<not> str_includes (toLowerCase text) ''signed by''
                 then [signature_blocker (uuid n)] else []);
          crit = filter (\<lambda>r. severity r = critical) risks;
          req = filter (\<lambda>t. importance t = required) missingTerms
      in (sig
          @ map (\<lambda>(i, r). risk_blocker (uuid i) r) (enumerate (n + length sig) crit)
          @ map (\<lambda>(i, t). term_blocker (uuid i) t)
              (enumerate (n + length sig + length crit) req),
          n + length sig + length crit + length req))"
    by (rule identifyBlockers_closed)
  show "map blocker_type (fst (identifyBlockers uuid n text risks missingTerms)) =
       (if \<not> str_includes (toLowerCase text) ''signature''
           \<and> \<not> str_includes (toLowerCase text) ''signed by''
        then [missing_signature] else [])
       @ map (\<lambda>r. legal_review) (filter (\<lambda>r. severity r = critical) risks)
       @ map (\<lambda>t. negotiation_required) (filter (\<lambda>t. importance t = required) missingTerms)"
    by (rule identifyBlockers_types)
  show "blocker_type (signature_blocker (uuid n)) = missing_signature"
    by (rule blocker_types(1))
  assume "\<not> str_includes (toLowerCase text) ''signature''
            \<and> \<not> str_includes (toLowerCase text) ''signed by''"
  then show "fst (identifyBlockers uuid n text [] []) = [signature_blocker (uuid n)]"
    by (simp add: identifyBlockers_closed del: str_includes.simps)
qed

theorem identifyBlockers_exactly_witness:
  "\<not> str_includes (toLowerCase ''This Contract is made between Acme and Bolt.'') ''signature''
   \<and> \<not> str_includes (toLowerCase ''This Contract is made between Acme and Bolt.'') ''signed by''
   \<and> fst (identifyBlockers (\<lambda>i. ''uuid'') 0 ''This Contract is made between Acme and Bolt.'' [] [])
       = [signature_blocker ''uuid'']
   \<and> map blocker_type
        (fst (identifyBlockers (\<lambda>i. ''uuid'') 0 ''This Contract is made between Acme and Bolt.''
           [test_risk ''1'' liability_exposure critical, test_risk ''2'' payment_risk high]
           [test_term ''Timeline'' optional, test_term ''Effective Date'' required]))
       = [missing_signature, legal_review, negotiation_required]"
proof -
  let ?text = "''This Contract is made between Acme and Bolt.''"
  have h: "\<not> str_includes (toLowerCase ?text) ''signature''
     \<and> \<not> str_includes (toLowerCase ?text) ''signed by''"
    by code_simp
  note th = identifyBlockers_exactly [of "\<lambda>i. ''uuid''" 0 ?text
        "[test_risk ''1'' liability_exposure critical, test_risk ''2'' payment_risk high]"
        "[test_term ''Timeline'' optional, test_term ''Effective Date'' required]"]
  have single: "fst (identifyBlockers (\<lambda>i. ''uuid'') 0 ?text [] []) = [signature_blocker ''uuid'']"
    using th[THEN conjunct2, THEN conjunct2] h by blast
  have types: "map blocker_type
        (fst (identifyBlockers (\<lambda>i. ''uuid'') 0 ?text
           [test_risk ''1'' liability_exposure critical, test_risk ''2'' payment_risk high]
           [test_term ''Timeline'' optional, test_term ''Effective Date'' required]))
       = [missing_signature, legal_review, negotiation_required]"
    using th[THEN conjunct2, THEN conjunct1] h
    by (simp add: test_risk_def test_term_def del: str_includes.simps)
  show ?thesis
    using h single types by blast
qed

section \<open>Properties of the action list\<close>

lemma set_insert_sorted: "set (insert_sorted cmp x ys) = insert x (set ys)"
  by (induction ys) auto

lemma sorted_insert_sorted:
  fixes f :: "'a \<Rightarrow> int"
  assumes "sorted (map f ys)"
  shows "sorted (map f (insert_sorted (\<lambda>a b. f a - f b) x ys))"
  using assms by (induction ys) (auto simp: set_insert_sorted)

lemma filter_insert_sorted:
  fixes f :: "'a \<Rightarrow> int"
  assumes "sorted (map f ys)"
  shows "filter (\<lambda>a. f a = k) (insert_sorted (\<lambda>a b. f a - f b) x ys) =
         filter (\<lambda>a. f a = k) ys @ (if f x = k then [x] else [])"
  using assms
proof (induction ys)
  case Nil
  show ?case by simp
next
  case (Cons y ys)
  show ?case
  proof (cases "f y - f x > 0")
    case True
    have "filter (\<lambda>a. f a = f x) (y # ys) = []"
      using Cons.prems True by (auto simp: filter_empty_conv)
    with True show ?thesis by auto
  next
    case False
    with Cons show ?thesis by simp
  qed
qed

lemma fold_insert_sorted:
  fixes f :: "'a \<Rightarrow> int"
  assumes "sorted (map f acc)"
  shows "sorted (map f (fold (insert_sorted (\<lambda>a b. f a - f b)) xs acc))
    \<and> filter (\<lambda>a. f a = k) (fold (insert_sorted (\<lambda>a b. f a - f b)) xs acc) =
        filter (\<lambda>a. f a = k) acc @ filter (\<lambda>a. f a = k) xs"
  using assms
proof (induction xs arbitrary: acc)
  case Nil
  then show ?case by simp
next
  case (Cons x xs)
  have s: "sorted (map f (insert_sorted (\<lambda>a b. f a - f b) x acc))"
    by (rule sorted_insert_sorted[OF Cons.prems])
  show ?case
    using Cons.IH[OF s] by (simp add: filter_insert_sorted[OF Cons.prems])
qed

lemma Array_sort_by_key:
  fixes f :: "'a \<Rightarrow> int"
  shows "sorted (map f (Array_sort (\<lambda>a b. f a - f b) xs))"
    and "filter (\<lambda>a. f a = k) (Array_sort (\<lambda>a b. f a - f b) xs) = filter (\<lambda>a. f a = k) xs"
    and "mset (Array_sort cmp xs) = mset xs"
proof -
  show "sorted (map f (Array_sort (\<lambda>a b. f a - f b) xs))"
    using fold_insert_sorted[of f "[]" xs] by (simp add: Array_sort_def)
  show "filter (\<lambda>a. f a = k) (Array_sort (\<lambda>a b. f a - f b) xs) = filter (\<lambda>a. f a = k) xs"
    using fold_insert_sorted[of f "[]" xs k] by (simp add: Array_sort_def)
  have "mset (insert_sorted cmp x ys) = add_mset x (mset ys)" for x ys
    by (induction ys) auto
  then have "mset (fold (insert_sorted cmp) xs acc) = mset xs + mset acc" for acc
    by (induction xs arbitrary: acc) auto
  then show "mset (Array_sort cmp xs) = mset xs"
    by (simp add: Array_sort_def)
qed

lemma priorityOrder_inj: "priorityOrder p = priorityOrder q \<longleftrightarrow> p = q"
  by (cases p; cases q) simp_all

lemma pushed_actions_closed:
  "pushed_actions uuid n risks missingTerms blockers =
     (let rs = filter (\<lambda>r. severity r = critical \<or> severity r = high) risks;
          ts = filter (\<lambda>t. importance t = required) missingTerms
      in (map (\<lambda>(i, r). risk_action (uuid i) r) (enumerate n rs)
          @ map (\<lambda>(i, b). blocker_action (uuid i) b) (enumerate (n + length rs) blockers)
          @ map (\<lambda>(i, t). term_action (uuid i) t)
              (enumerate (n + length rs + length blockers) ts),
          n + length rs + length blockers + length ts))"
  by (simp add: pushed_actions_def Let_def fold_push_with_id)

lemma priorityOrder_ranks:
  "priorityOrder p = (case p of P_urgent \<Rightarrow> 0 | P_high \<Rightarrow> 1 | P_medium \<Rightarrow> 2 | P_low \<Rightarrow> 3)"
  by (cases p) simp_all

lemma generateRequiredActions_sorted_by_code_table:
  "sorted (map (\<lambda>a. priorityOrder (priority a))
       (fst (generateRequiredActions uuid n risks missingTerms blockers)))"
proof -
  have "fst (generateRequiredActions uuid n risks missingTerms blockers) =
        Array_sort
          (\<lambda>a b. priorityOrder (priority a) - priorityOrder (priority b))
          (fst (pushed_actions uuid n risks missingTerms blockers))"
    by (simp add: generateRequiredActions_def Let_def)
  then show ?thesis
    using Array_sort_by_key(1)[of "\<lambda>a. priorityOrder (priority a)"] by simp
qed

text \<open>
  Claim C5. The list returned by \<open>generateRequiredActions\<close> is sorted in nondecreasing
  priority rank, where the rank is urgent 0, high 1, medium 2, low 3 (written out in the
  statement, and equal to the table \<open>priorityOrder\<close> of the code); and the sort is
  stable: for every priority, the actions of that priority stand in the result in the
  order in which they were generated. The generation order is: the actions of the
  critical and high risks in the order of the risks, then the actions of the blockers in
  the order of the blockers, then the actions of the required missing terms in the order
  of the terms.
\<close>

theorem generateRequiredActions_sorted_stable:
  "sorted (map (\<lambda>a. case priority a of
                      P_urgent \<Rightarrow> (0::int) | P_high \<Rightarrow> 1 | P_medium \<Rightarrow> 2 | P_low \<Rightarrow> 3)
       (fst (generateRequiredActions uuid n risks missingTerms blockers)))
   \<and> priorityOrder P_urgent = 0 \<and> priorityOrder P_high = 1
   \<and> priorityOrder P_medium = 2 \<and> priorityOrder P_low = 3
   \<and> sorted (map (\<lambda>a. priorityOrder (priority a))
       (fst (generateRequiredActions uuid n risks missingTerms blockers)))
   \<and> (\<forall>p. filter (\<lambda>a. priority a = p)
            (fst (generateRequiredActions uuid n risks missingTerms blockers)) =
          filter (\<lambda>a. priority a = p) (fst (pushed_actions uuid n risks missingTerms blockers)))
   \<and> fst (pushed_actions uuid n risks missingTerms blockers) =
       (let rs = filter (\<lambda>r. severity r = critical \<or> severity r = high) risks;
            ts = filter (\<lambda>t. importance t = required) missingTerms
        in map (\<lambda>(i, r). risk_action (uuid i) r) (enumerate n rs)
           @ map (\<lambda>(i, b). blocker_action (uuid i) b) (enumerate (n + length rs) blockers)
           @ map (\<lambda>(i, t). term_action (uuid i) t)
               (enumerate (n + length rs + length blockers) ts))"
proof (intro conjI allI)
  let ?f = "\<lambda>a. priorityOrder (priority a)"
  let ?xs = "fst (pushed_actions uuid n risks missingTerms blockers)"
  have g: "fst (generateRequiredActions uuid n risks missingTerms blockers) =
           Array_sort (\<lambda>a b. ?f a - ?f b) ?xs"
    by (simp add: generateRequiredActions_def Let_def)
  show "sorted (map ?f (fst (generateRequiredActions uuid n risks missingTerms blockers)))"
    by (rule generateRequiredActions_sorted_by_code_table)
  show "sorted (map (\<lambda>a. case priority a of
                      P_urgent \<Rightarrow> (0::int) | P_high \<Rightarrow> 1 | P_medium \<Rightarrow> 2 | P_low \<Rightarrow> 3)
       (fst (generateRequiredActions uuid n risks missingTerms blockers)))"
    using generateRequiredActions_sorted_by_code_table[of uuid n risks missingTerms blockers]
    by (simp only: priorityOrder_ranks)
  show "filter (\<lambda>a. priority a = p)
            (fst (generateRequiredActions uuid n risks missingTerms blockers)) =
          filter (\<lambda>a. priority a = p) ?xs" for p
    unfolding g using Array_sort_by_key(2)[of ?f "priorityOrder p" ?xs]
    by (simp add: priorityOrder_inj)
  show "?xs =
       (let rs = filter (\<lambda>r. severity r = critical \<or> severity r = high) risks;
            ts = filter (\<lambda>t. importance t = required) missingTerms
        in map (\<lambda>(i, r). risk_action (uuid i) r) (enumerate n rs)
           @ map (\<lambda>(i, b). blocker_action (uuid i) b) (enumerate (n + length rs) blockers)
           @ map (\<lambda>(i, t). term_action (uuid i) t)
               (enumerate (n + length rs + length blockers) ts))"
    by (simp add: pushed_actions_closed Let_def)
qed simp_all

theorem generateRequiredActions_sorted_stable_witness:
  "map priority
     (fst (generateRequiredActions uuid_fixture 0
        [test_risk ''1'' missing_clause high, test_risk ''2'' liability_exposure critical,
         test_risk ''3'' payment_risk low]
        [test_term ''Effective Date'' required, test_term ''Timeline'' optional]
        [test_blocker ''1'' legal_review, test_blocker ''2'' missing_signature])) =
     [P_urgent, P_urgent, P_high, P_high, P_medium]
   \<and> sorted (map (\<lambda>a. case priority a of
                      P_urgent \<Rightarrow> (0::int) | P_high \<Rightarrow> 1 | P_medium \<Rightarrow> 2 | P_low \<Rightarrow> 3)
       (fst (generateRequiredActions uuid_fixture 0
        [test_risk ''1'' missing_clause high, test_risk ''2'' liability_exposure critical,
         test_risk ''3'' payment_risk low]
        [test_term ''Effective Date'' required, test_term ''Timeline'' optional]
        [test_blocker ''1'' legal_review, test_blocker ''2'' missing_signature])))"
proof -
  have e: "map priority
     (fst (generateRequiredActions uuid_fixture 0
        [test_risk ''1'' missing_clause high, test_risk ''2'' liability_exposure critical,
         test_risk ''3'' payment_risk low]
        [test_term ''Effective Date'' required, test_term ''Timeline'' optional]
        [test_blocker ''1'' legal_review, test_blocker ''2'' missing_signature])) =
     [P_urgent, P_urgent, P_high, P_high, P_medium]"
    by code_simp
  show ?thesis
    using e generateRequiredActions_sorted_stable [of uuid_fixture 0
        "[test_risk ''1'' missing_clause high, test_risk ''2'' liability_exposure critical,
          test_risk ''3'' payment_risk low]"
        "[test_term ''Effective Date'' required, test_term ''Timeline'' optional]"
        "[test_blocker ''1'' legal_review, test_blocker ''2'' missing_signature]"]
    by blast
qed

section \<open>Properties of the AI-backed analyzer\<close>

lemma get_field_cases:
  "get_field v k = (if v = JNull then Inl TypeError else Inr (field_of v k))"
  by (cases v) (simp_all add: field_of_def)

lemma answer_of_AnswerD:
  assumes "answer_of chat JSON_parse prompt = Answer parsed"
  obtains content where "chat prompt = Inr (Some content)" and "content \<noteq> []"
    and "JSON_parse content = Inr parsed"
  using assms by (auto simp: answer_of_def split: sum.splits option.splits if_splits)

lemma answer_of_NoAnswer_iff:
  "answer_of chat JSON_parse prompt = NoAnswer \<longleftrightarrow>
     (\<exists>error. chat prompt = Inl error) \<or> chat prompt = Inr None
     \<or> chat prompt = Inr (Some [])
     \<or> (\<exists>content error. chat prompt = Inr (Some content) \<and> JSON_parse content = Inl error)"
  by (auto simp: answer_of_def split: sum.splits option.splits if_splits)

lemma answer_of_NoAnswerD:
  assumes "answer_of chat JSON_parse prompt = NoAnswer"
  shows "(\<exists>error. chat prompt = Inl error) \<or> chat prompt = Inr None
         \<or> chat prompt = Inr (Some [])
         \<or> (\<exists>content error. chat prompt = Inr (Some content) \<and> content \<noteq> []
               \<and> JSON_parse content = Inl error)"
  using assms by (auto simp: answer_of_def split: sum.splits option.splits if_splits)

lemma extractEntities_try_NoAnswer:
  assumes "answer_of chat JSON_parse (entities_prompt text) = NoAnswer"
  shows "extractEntities_try chat JSON_parse text \<noteq> Inr (Some v)"
  using answer_of_NoAnswerD[OF assms]
  by (auto simp: extractEntities_try_def)

lemma extractEntities_try_Answer:
  assumes "answer_of chat JSON_parse (entities_prompt text) = Answer parsed"
  shows "extractEntities_try chat JSON_parse text =
       (if parsed = JNull then Inl TypeError
        else Inr (Some (js_or (field_of parsed ''entities'') parsed)))"
proof -
  from assms obtain content where "chat (entities_prompt text) = Inr (Some content)"
    and "content \<noteq> []" and "JSON_parse content = Inr parsed"
    by (rule answer_of_AnswerD)
  then show ?thesis
    by (simp add: extractEntities_try_def get_field_cases)
qed

lemma extractEntities_returns: "\<exists>v. fst (extractEntities apiKey chat JSON_parse patterns text) = Inr v"
  by (simp add: extractEntities_def split: sum.splits option.splits)

lemma extractEntities_fallback:
  assumes "apiKey = [] \<or> answer_of chat JSON_parse (entities_prompt text) = NoAnswer
           \<or> answer_of chat JSON_parse (entities_prompt text) = Answer JNull"
  shows "fst (extractEntities apiKey chat JSON_parse patterns text) = Inr (Typed (patterns text))"
proof (cases "apiKey = []")
  case True
  then show ?thesis by (simp add: extractEntities_def)
next
  case False
  with assms consider "answer_of chat JSON_parse (entities_prompt text) = NoAnswer"
    | "answer_of chat JSON_parse (entities_prompt text) = Answer JNull"
    by blast
  then show ?thesis
  proof cases
    case 1
    from extractEntities_try_NoAnswer[OF 1] show ?thesis
      by (auto simp: extractEntities_def split: sum.splits option.splits)
  next
    case 2
    from extractEntities_try_Answer[OF 2] show ?thesis
      by (simp add: extractEntities_def)
  qed
qed

lemma extractEntities_unchecked:
  assumes "apiKey \<noteq> []" and "answer_of chat JSON_parse (entities_prompt text) = Answer parsed"
    and "parsed \<noteq> JNull"
  shows "fst (extractEntities apiKey chat JSON_parse patterns text) =
         Inr (FromJSON (js_or (field_of parsed ''entities'') parsed))"
  using assms(1,3) extractEntities_try_Answer[OF assms(2)]
  by (simp add: extractEntities_def)

lemma identifyRisks_try_NoAnswer:
  assumes "answer_of chat JSON_parse (risks_prompt text documentType) = NoAnswer"
  shows "identifyRisks_try chat JSON_parse uuid n text documentType \<noteq> Inr (Some v)"
  using answer_of_NoAnswerD[OF assms]
  by (auto simp: identifyRisks_try_def)

lemma identifyRisks_try_Answer:
  assumes "answer_of chat JSON_parse (risks_prompt text documentType) = Answer parsed"
  shows "identifyRisks_try chat JSON_parse uuid n text documentType =
       (if parsed = JNull then Inl TypeError
        else case js_or (field_of parsed ''risks'') (JArray []) of
               JArray rs \<Rightarrow>
                 Inr (Some (JArray (map (\<lambda>(i, r). with_fresh_id (uuid i) r) (enumerate n rs)),
                            n + length rs))
             | _ \<Rightarrow> Inl TypeError)"
proof -
  from assms obtain content where "chat (risks_prompt text documentType) = Inr (Some content)"
    and "content \<noteq> []" and "JSON_parse content = Inr parsed"
    by (rule answer_of_AnswerD)
  then show ?thesis
    by (simp add: identifyRisks_try_def get_field_cases fold_push_with_id Let_def
        split: json.splits)
qed

lemma identifyRisks_returns:
  "\<exists>v. fst (identifyRisks apiKey chat JSON_parse uuid n text documentType) = Inr v"
  by (simp add: identifyRisks_def Let_def split: sum.splits option.splits prod.splits)

lemma identifyRisks_fallback:
  assumes "apiKey = [] \<or> answer_of chat JSON_parse (risks_prompt text documentType) = NoAnswer
           \<or> answer_of chat JSON_parse (risks_prompt text documentType) = Answer JNull"
  shows "fst (identifyRisks apiKey chat JSON_parse uuid n text documentType) =
           Inr (Typed (fst (identifyRisksWithRules uuid n text documentType)))
         \<and> fst (snd (identifyRisks apiKey chat JSON_parse uuid n text documentType)) =
           snd (identifyRisksWithRules uuid n text documentType)"
proof (cases "apiKey = []")
  case True
  then show ?thesis by (simp add: identifyRisks_def Let_def)
next
  case False
  with assms consider "answer_of chat JSON_parse (risks_prompt text documentType) = NoAnswer"
    | "answer_of chat JSON_parse (risks_prompt text documentType) = Answer JNull"
    by blast
  then show ?thesis
  proof cases
    case 1
    from identifyRisks_try_NoAnswer[OF 1] show ?thesis
      by (auto simp: identifyRisks_def Let_def split: sum.splits option.splits prod.splits)
  next
    case 2
    from identifyRisks_try_Answer[OF 2] show ?thesis
      by (simp add: identifyRisks_def Let_def)
  qed
qed

lemma identifyRisks_unchecked:
  assumes "apiKey \<noteq> []"
    and "answer_of chat JSON_parse (risks_prompt text documentType) = Answer parsed"
    and "parsed \<noteq> JNull"
  shows "fst (identifyRisks apiKey chat JSON_parse uuid n text documentType) =
         (case js_or (field_of parsed ''risks'') (JArray []) of
            JArray rs \<Rightarrow>
              Inr (FromJSON (JArray (map (\<lambda>(i, r). with_fresh_id (uuid i) r) (enumerate n rs))))
          | _ \<Rightarrow> Inr (Typed (fst (identifyRisksWithRules uuid n text documentType))))"
  using assms(1,3) identifyRisks_try_Answer[OF assms(2)]
  by (simp add: identifyRisks_def Let_def split: json.splits)

lemma no_key_no_call:
  "extractEntities [] chat JSON_parse patterns text = (Inr (Typed (patterns text)), [])"
  "identifyRisks [] chat JSON_parse uuid n text documentType =
     (Inr (Typed (fst (identifyRisksWithRules uuid n text documentType))),
      snd (identifyRisksWithRules uuid n text documentType), [])"
  by (simp_all add: extractEntities_def identifyRisks_def Let_def)


text \<open>
  What the two functions do on every path. They never pass an exception to the caller,
  whatever the service and \<open>JSON.parse\<close> do. Without an API key they return the result
  of the fallback (\<open>extractEntitiesWithPatterns\<close>, \<open>identifyRisksWithRules\<close>) and make no
  call. When the call throws, yields no content, or yields content that \<open>JSON.parse\<close>
  rejects or parses to \<open>null\<close>, they return the result of the fallback (\<open>answer_of\<close> is
  \<open>NoAnswer\<close> exactly in the first three cases: lemma \<open>answer_of_NoAnswer_iff\<close>). When
  the content parses to another value, \<open>extractEntities\<close> returns
  \<open>parsed.entities || parsed\<close> and \<open>identifyRisks\<close> returns the elements of
  \<open>parsed.risks || []\<close>, each with a fresh \<open>id\<close>, when that is an array, and the result of
  the fallback when it is not; nothing compares the value with the declared return type.
\<close>

lemma analyzer_paths:
  "(\<exists>v. fst (extractEntities apiKey chat JSON_parse patterns text) = Inr v)
   \<and> (\<exists>v. fst (identifyRisks apiKey chat JSON_parse uuid n text documentType) = Inr v)
   \<and> extractEntities [] chat JSON_parse patterns text = (Inr (Typed (patterns text)), [])
   \<and> identifyRisks [] chat JSON_parse uuid n text documentType =
       (Inr (Typed (fst (identifyRisksWithRules uuid n text documentType))),
        snd (identifyRisksWithRules uuid n text documentType), [])
   \<and> (answer_of chat JSON_parse (entities_prompt text) = NoAnswer
        \<or> answer_of chat JSON_parse (entities_prompt text) = Answer JNull
      \<longrightarrow> fst (extractEntities apiKey chat JSON_parse patterns text) =
            Inr (Typed (patterns text)))
   \<and> (answer_of chat JSON_parse (risks_prompt text documentType) = NoAnswer
        \<or> answer_of chat JSON_parse (risks_prompt text documentType) = Answer JNull
      \<longrightarrow> fst (identifyRisks apiKey chat JSON_parse uuid n text documentType) =
            Inr (Typed (fst (identifyRisksWithRules uuid n text documentType))))
   \<and> (apiKey \<noteq> [] \<and> answer_of chat JSON_parse (entities_prompt text) = Answer parsed
        \<and> parsed \<noteq> JNull
      \<longrightarrow> fst (extractEntities apiKey chat JSON_parse patterns text) =
            Inr (FromJSON (js_or (field_of parsed ''entities'') parsed)))
   \<and> (apiKey \<noteq> [] \<and> answer_of chat JSON_parse (risks_prompt text documentType) = Answer parsed
        \<and> parsed \<noteq> JNull
      \<longrightarrow> fst (identifyRisks apiKey chat JSON_parse uuid n text documentType) =
            (case js_or (field_of parsed ''risks'') (JArray []) of
               JArray rs \<Rightarrow>
                 Inr (FromJSON
                   (JArray (map (\<lambda>(i, r). with_fresh_id (uuid i) r) (enumerate n rs))))
             | _ \<Rightarrow> Inr (Typed (fst (identifyRisksWithRules uuid n text documentType)))))"
proof (intro conjI impI)
  show "\<exists>v. fst (extractEntities apiKey chat JSON_parse patterns text) = Inr v"
    by (rule extractEntities_returns)
  show "\<exists>v. fst (identifyRisks apiKey chat JSON_parse uuid n text documentType) = Inr v"
    by (rule identifyRisks_returns)
  show "extractEntities [] chat JSON_parse patterns text = (Inr (Typed (patterns text)), [])"
    by (rule no_key_no_call(1))
  show "identifyRisks [] chat JSON_parse uuid n text documentType =
       (Inr (Typed (fst (identifyRisksWithRules uuid n text documentType))),
        snd (identifyRisksWithRules uuid n text documentType), [])"
    by (rule no_key_no_call(2))
next
  assume "answer_of chat JSON_parse (entities_prompt text) = NoAnswer
        \<or> answer_of chat JSON_parse (entities_prompt text) = Answer JNull"
  then show "fst (extractEntities apiKey chat JSON_parse patterns text) =
            Inr (Typed (patterns text))"
    by (intro extractEntities_fallback) blast
next
  assume "answer_of chat JSON_parse (risks_prompt text documentType) = NoAnswer
        \<or> answer_of chat JSON_parse (risks_prompt text documentType) = Answer JNull"
  then have "apiKey = [] \<or> answer_of chat JSON_parse (risks_prompt text documentType) = NoAnswer
        \<or> answer_of chat JSON_parse (risks_prompt text documentType) = Answer JNull"
    by blast
  from identifyRisks_fallback[OF this]
  show "fst (identifyRisks apiKey chat JSON_parse uuid n text documentType) =
            Inr (Typed (fst (identifyRisksWithRules uuid n text documentType)))"
    by blast
next
  assume "apiKey \<noteq> [] \<and> answer_of chat JSON_parse (entities_prompt text) = Answer parsed
        \<and> parsed \<noteq> JNull"
  then show "fst (extractEntities apiKey chat JSON_parse patterns text) =
            Inr (FromJSON (js_or (field_of parsed ''entities'') parsed))"
    by (intro extractEntities_unchecked) blast+
next
  assume "apiKey \<noteq> [] \<and> answer_of chat JSON_parse (risks_prompt text documentType) = Answer parsed
        \<and> parsed \<noteq> JNull"
  then show "fst (identifyRisks apiKey chat JSON_parse uuid n text documentType) =
            (case js_or (field_of parsed ''risks'') (JArray []) of
               JArray rs \<Rightarrow>
                 Inr (FromJSON
                   (JArray (map (\<lambda>(i, r). with_fresh_id (uuid i) r) (enumerate n rs))))
             | _ \<Rightarrow> Inr (Typed (fst (identifyRisksWithRules uuid n text documentType))))"
    by (intro identifyRisks_unchecked) blast+
qed

lemma fixture_answers:
  "answer_of failing JSON_parse_fixture prompt = NoAnswer"
  "answer_of (answering ''I cannot help with that.'') JSON_parse_fixture prompt = NoAnswer"
  "answer_of (answering ''null'') JSON_parse_fixture prompt = Answer JNull"
  "answer_of (answering ''{}'') JSON_parse_fixture prompt = Answer (JObject [])"
  \<open>answer_of (answering ''{"risks":[{}]}'') JSON_parse_fixture prompt
     = Answer (JObject [(''risks'', JArray [JObject []])])\<close>
  by (simp_all add: answer_of_def failing_def answering_def JSON_parse_fixture_def)

lemma analyzer_paths_examples:
  \<open>answer_of (answering ''I cannot help with that.'') JSON_parse_fixture
      (entities_prompt ''Some contract text'') = NoAnswer
   \<and> fst (extractEntities ''sk-test'' (answering ''I cannot help with that.'') JSON_parse_fixture
        no_entities ''Some contract text'') = Inr (Typed (no_entities ''Some contract text''))
   \<and> answer_of (answering ''null'') JSON_parse_fixture
        (risks_prompt ''Some contract text'' ''contract'') = Answer JNull
   \<and> fst (identifyRisks ''sk-test'' (answering ''null'') JSON_parse_fixture uuid_fixture 0
        ''Some contract text'' ''contract'')
       = Inr (Typed (fst (identifyRisksWithRules uuid_fixture 0 ''Some contract text'' ''contract'')))
   \<and> ''sk-test'' \<noteq> []
   \<and> answer_of (answering ''{}'') JSON_parse_fixture (entities_prompt ''Some contract text'')
       = Answer (JObject [])
   \<and> fst (extractEntities ''sk-test'' (answering ''{}'') JSON_parse_fixture
        no_entities ''Some contract text'') = Inr (FromJSON (JObject []))
   \<and> answer_of (answering ''{"risks":[{}]}'') JSON_parse_fixture
        (risks_prompt ''Some contract text'' ''contract'')
       = Answer (JObject [(''risks'', JArray [JObject []])])
   \<and> fst (identifyRisks ''sk-test'' (answering ''{"risks":[{}]}'') JSON_parse_fixture uuid_fixture 0
        ''Some contract text'' ''contract'')
       = Inr (FromJSON (JArray [with_fresh_id (uuid_fixture 0) (JObject [])]))\<close>
proof -
  note a = analyzer_paths
    [of "''sk-test''" "answering ''I cannot help with that.''" JSON_parse_fixture no_entities
      "''Some contract text''"]
  note b = analyzer_paths
    [of "''sk-test''" "answering ''null''" JSON_parse_fixture _ "''Some contract text''"
      uuid_fixture 0 "''contract''"]
  note c = analyzer_paths
    [of "''sk-test''" "answering ''{}''" JSON_parse_fixture no_entities
      "''Some contract text''" _ _ _ "JObject []"]
  note d = analyzer_paths
    [of "''sk-test''" \<open>answering ''{"risks":[{}]}''\<close> JSON_parse_fixture _
      "''Some contract text''" uuid_fixture 0 "''contract''"
      "JObject [(''risks'', JArray [JObject []])]"]
  have 1: "fst (extractEntities ''sk-test'' (answering ''I cannot help with that.'')
        JSON_parse_fixture no_entities ''Some contract text'')
      = Inr (Typed (no_entities ''Some contract text''))"
    using a by (simp add: fixture_answers)
  have 2: "fst (identifyRisks ''sk-test'' (answering ''null'') JSON_parse_fixture uuid_fixture 0
        ''Some contract text'' ''contract'')
       = Inr (Typed (fst (identifyRisksWithRules uuid_fixture 0 ''Some contract text'' ''contract'')))"
    using b by (simp add: fixture_answers)
  have 3: "fst (extractEntities ''sk-test'' (answering ''{}'') JSON_parse_fixture
        no_entities ''Some contract text'') = Inr (FromJSON (JObject []))"
    using c by (simp add: fixture_answers field_of_def js_or_def)
  have 4: \<open>fst (identifyRisks ''sk-test'' (answering ''{"risks":[{}]}'') JSON_parse_fixture
        uuid_fixture 0 ''Some contract text'' ''contract'')
       = Inr (FromJSON (JArray [with_fresh_id (uuid_fixture 0) (JObject [])]))\<close>
    using d by (simp add: fixture_answers field_of_def js_or_def)
  show ?thesis
    using 1 2 3 4 by (simp add: fixture_answers)
qed

text \<open>
  Claim C4. The AI-backed extraction operations never pass an exception to the caller and
  always return a well-typed result: the fallback result without an API key, and the
  fallback result when the call throws or its content cannot be parsed. The code does not
  meet the second half. Both functions declare their return type
  (\<open>Promise<ExtractedEntity[]>\<close>, \<open>Promise<DocumentRisk[]>\<close>) and return what
  \<open>JSON.parse\<close> yields without comparing it with that type. With an API key and the
  answer \<open>{}\<close>, \<open>extractEntities\<close> returns the empty object (\<open>parsed.entities || parsed\<close>),
  which is no array of entities, where \<open>identifyRisks\<close> returns the empty array
  (\<open>parsed.risks || []\<close>) for the same answer. With the answer \<open>{"risks":[{}]}\<close>,
  \<open>identifyRisks\<close> returns an array whose element has an \<open>id\<close> and nothing else. Neither
  result is the fallback result, and neither is well typed. The theorem evaluates the
  code at these inputs.
\<close>

theorem analyzer_ill_typed_result:
  \<open>fst (extractEntities ''sk-test'' (answering ''{}'') JSON_parse_fixture no_entities
        ''Some contract text'') = Inr (FromJSON (JObject []))
   \<and> \<not> well_typed is_ExtractedEntity (FromJSON (JObject []) :: ExtractedEntity list returned)
   \<and> fst (extractEntities ''sk-test'' (answering ''{}'') JSON_parse_fixture no_entities
        ''Some contract text'') \<noteq> Inr (Typed (no_entities ''Some contract text''))
   \<and> fst (identifyRisks ''sk-test'' (answering ''{}'') JSON_parse_fixture uuid_fixture 0
        ''Some contract text'' ''contract'') = Inr (FromJSON (JArray []))
   \<and> well_typed is_DocumentRisk (FromJSON (JArray []) :: DocumentRisk list returned)
   \<and> fst (identifyRisks ''sk-test'' (answering ''{"risks":[{}]}'') JSON_parse_fixture uuid_fixture 0
        ''Some contract text'' ''contract'')
       = Inr (FromJSON (JArray [JObject [(''id'', JString ''uuid-0'')]]))
   \<and> \<not> well_typed is_DocumentRisk
         (FromJSON (JArray [JObject [(''id'', JString ''uuid-0'')]]) :: DocumentRisk list returned)\<close>
proof (intro conjI)
  show e: "fst (extractEntities ''sk-test'' (answering ''{}'') JSON_parse_fixture no_entities
        ''Some contract text'') = Inr (FromJSON (JObject []))"
    using extractEntities_unchecked[of "''sk-test''" "answering ''{}''" JSON_parse_fixture
        "''Some contract text''" "JObject []" no_entities]
    by (simp add: fixture_answers field_of_def js_or_def)
  show "\<not> well_typed is_ExtractedEntity (FromJSON (JObject []) :: ExtractedEntity list returned)"
    by simp
  show "fst (extractEntities ''sk-test'' (answering ''{}'') JSON_parse_fixture no_entities
        ''Some contract text'') \<noteq> Inr (Typed (no_entities ''Some contract text''))"
    unfolding e by simp
  show "fst (identifyRisks ''sk-test'' (answering ''{}'') JSON_parse_fixture uuid_fixture 0
        ''Some contract text'' ''contract'') = Inr (FromJSON (JArray []))"
    using identifyRisks_unchecked[of "''sk-test''" "answering ''{}''" JSON_parse_fixture
        "''Some contract text''" "''contract''" "JObject []" uuid_fixture 0]
    by (simp add: fixture_answers field_of_def js_or_def)
  show "well_typed is_DocumentRisk (FromJSON (JArray []) :: DocumentRisk list returned)"
    by simp
  have d0: "decimal 0 = ''0''"
    by code_simp
  show \<open>fst (identifyRisks ''sk-test'' (answering ''{"risks":[{}]}'') JSON_parse_fixture uuid_fixture 0
        ''Some contract text'' ''contract'')
       = Inr (FromJSON (JArray [JObject [(''id'', JString ''uuid-0'')]]))\<close>
    using identifyRisks_unchecked[of "''sk-test''" \<open>answering ''{"risks":[{}]}''\<close> JSON_parse_fixture
        "''Some contract text''" "''contract''" "JObject [(''risks'', JArray [JObject []])]"
        uuid_fixture 0]
    by (simp add: fixture_answers field_of_def js_or_def with_fresh_id_def uuid_fixture_def d0
        del: decimal.simps)
  show "\<not> well_typed is_DocumentRisk
         (FromJSON (JArray [JObject [(''id'', JString ''uuid-0'')]]) :: DocumentRisk list returned)"
    by (simp add: required_field_def)
qed

section \<open>Properties of the document store\<close>

text \<open>
  Claim C8. Reanalyzing a stored analysis, through the route or through the webhook
  action, replaces it by a copy whose \<open>analyzedAt\<close> is the time read at the call and
  whose other fields (documentId, filename, documentType, uploadedAt, entities, risks,
  missingTerms, blockers, riskScore, summary, rawText) are unchanged; no other entry of
  the store changes, and nothing is recomputed.
\<close>

theorem reanalyze_touches_timestamp_only:
  assumes "store docId = Some a"
  shows "\<exists>a'. reanalyze_route now docId store = (store(docId \<mapsto> a'), Success_200 a')
            \<and> webhook_action now ''reanalyze'' docId store = store(docId \<mapsto> a')
            \<and> analyzedAt a' = now
            \<and> same_but_analyzedAt a a'"
  using assms
  by (intro exI[of _ "a\<lparr>analyzedAt := now\<rparr>"])
     (simp add: reanalyze_route_def webhook_action_def same_but_analyzedAt_def Let_def)


theorem reanalyze_touches_timestamp_only_witness:
  "\<exists>a'. reanalyze_route ''2024-02-01T08:30:00.000Z'' ''doc-1'' [''doc-1'' \<mapsto> test_analysis]
           = ([''doc-1'' \<mapsto> a'], Success_200 a')
        \<and> analyzedAt a' = ''2024-02-01T08:30:00.000Z''
        \<and> riskScore a' = riskScore test_analysis
        \<and> rawText a' = rawText test_analysis"
  using reanalyze_touches_timestamp_only
    [of "[''doc-1'' \<mapsto> test_analysis]" "''doc-1''" test_analysis "''2024-02-01T08:30:00.000Z''"]
  by (auto simp: same_but_analyzedAt_def)

section \<open>The repository's unit tests and the specification's examples, on the model\<close>

text \<open>
  The expectations of the unit tests of \<open>detectDocumentType\<close>, \<open>calculateRiskScore\<close>,
  \<open>identifyBlockers\<close> and of the rule-based \<open>identifyRisks\<close>, and the examples of the
  specification (no findings; three critical liability risks; a text without any clause
  keyword), evaluated on the definitions above.
\<close>

lemma test_detect_filename:
  "detectDocumentType '''' ''NDA-Company-2024.pdf'' = nda"
  "detectDocumentType '''' ''non-disclosure-agreement.pdf'' = nda"
  "detectDocumentType '''' ''proposal-q4-2024.pdf'' = proposal"
  "detectDocumentType '''' ''service-contract.pdf'' = contract"
  "detectDocumentType '''' ''licensing-agreement.pdf'' = agreement"
  "detectDocumentType '''' ''invoice-12345.pdf'' = invoice"
  "detectDocumentType '''' ''sow-project-alpha.pdf'' = sow"
  "detectDocumentType '''' ''msa-enterprise.pdf'' = msa"
  by code_simp+

lemma test_detect_content:
  "detectDocumentType
     ''This Non-Disclosure Agreement contains confidential information that is proprietary.''
     ''document.pdf'' = nda"
  "detectDocumentType
     ''This proposal outlines the proposed solution including pricing and quote details.''
     ''document.pdf'' = proposal"
  "detectDocumentType
     ''Invoice #12345. Bill to: Customer Inc. Payment due: Net 30. Amount due: $5000''
     ''document.pdf'' = invoice"
  "detectDocumentType
     ''This Statement of Work outlines the deliverables and scope of work for the project.''
     ''document.pdf'' = sow"
  "detectDocumentType ''Some random text that does not match any pattern.'' ''random-file.pdf''
     = unknown"
  by code_simp+

lemma test_score_empty:
  "calculateRiskScore [] [] [] =
     \<lparr>overall = 0,
      breakdown = \<lparr>missingClauses = 0, unfavorableTerms = 0, complianceIssues = 0,
                   liabilityExposure = 0\<rparr>,
      grade = Grade_A, trend = None\<rparr>"
  by (simp add: score_eval)

lemma test_three_critical_liability_risks:
  "overall (calculateRiskScore
     [test_risk ''1'' liability_exposure critical, test_risk ''2'' liability_exposure critical,
      test_risk ''3'' liability_exposure critical] [] []) = 90"
  "grade (calculateRiskScore
     [test_risk ''1'' liability_exposure critical, test_risk ''2'' liability_exposure critical,
      test_risk ''3'' liability_exposure critical] [] []) = Grade_F"
  "map priority (fst (generateRequiredActions uuid_fixture 0
     [test_risk ''1'' liability_exposure critical, test_risk ''2'' liability_exposure critical,
      test_risk ''3'' liability_exposure critical] [] [])) = [P_urgent, P_urgent, P_urgent]"
  by (simp_all add: score_eval generateRequiredActions_def pushed_actions_def push_with_id_def
      Array_sort_def risk_action_def)

lemma test_blockers:
  "map blocker_type
     (fst (identifyBlockers uuid_fixture 0 ''This agreement is between Company A and Company B.''
        [] [])) = [missing_signature]"
  "map blocker_type
     (fst (identifyBlockers uuid_fixture 0 ''Signed by: John Doe''
        [test_risk ''1'' liability_exposure critical] [])) = [legal_review]"
  "map blocker_type
     (fst (identifyBlockers uuid_fixture 0 ''Signed by: John Doe''
        [] [test_term ''Payment Terms'' required])) = [negotiation_required]"
  by code_simp+

lemma test_rules:
  "map (\<lambda>r. (category r, severity r, risk_title r))
     (fst (identifyRisksWithRules uuid_fixture 0
        ''The vendor accepts unlimited liability for all damages.'' ''contract'')) =
     [(missing_clause, medium, ''Missing termination clause''),
      (missing_clause, medium, ''Missing indemnification clause''),
      (missing_clause, medium, ''Missing confidentiality clause''),
      (missing_clause, medium, ''Missing governing law clause''),
      (unfavorable_terms, high, ''Unlimited Liability'')]"
  "map (\<lambda>r. (category r, severity r))
     (fst (identifyRisksWithRules uuid_fixture 0 ''Hello world'' ''contract'')) =
     [(missing_clause, medium), (missing_clause, medium), (missing_clause, medium),
      (missing_clause, medium), (missing_clause, medium)]"
  by code_simp+

lemma test_sort_order:
  "map (\<lambda>a. (action_id a, priority a))
     (fst (generateRequiredActions uuid_fixture 0
        [test_risk ''1'' missing_clause high, test_risk ''2'' liability_exposure critical,
         test_risk ''3'' payment_risk low]
        [test_term ''Effective Date'' required, test_term ''Timeline'' optional]
        [test_blocker ''1'' legal_review, test_blocker ''2'' missing_signature])) =
     [(''uuid-1'', P_urgent), (''uuid-3'', P_urgent), (''uuid-0'', P_high), (''uuid-2'', P_high),
      (''uuid-4'', P_medium)]"
  by code_simp

end
